theory Spec2Isabelle
  imports Main "HOL-Library.AList"
begin

section \<open>Data model of the Vulcan config flow\<close>

text \<open>
  Modelled from the spec: the exception classes of the \<^verbatim>\<open>iris\<close> package, which is not
  part of the sources, as a flat enumeration of failures (no class is a subclass of
  another). These are the first eight constructors. \<^verbatim>\<open>ClientConnectionError\<close> is
  aiohttp's, the next three are raised by Python itself (indexing an empty list, a
  missing dictionary key, an attribute of \<^verbatim>\<open>None\<close>), and \<open>OtherException\<close> stands for
  any other subclass of \<^verbatim>\<open>Exception\<close>.
\<close>

datatype exn =
    MissingUnitSymbolException
  | WrongTokenException
  | UsedTokenException
  | WrongPINException
  | ExpiredTokenException
  | FailedRequestException
  | HttpUnsuccessfullStatusException
  | CertificateNotFoundException
  | ClientConnectionError
  | IndexError
  | KeyError
  | AttributeError
  | OtherException string

text \<open>
  A student profile (\<^verbatim>\<open>Account\<close> of the \<^verbatim>\<open>iris\<close> package) as far as the flow reads it:
  \<^verbatim>\<open>student.pupil.id\<close>, \<^verbatim>\<open>.first_name\<close>, \<^verbatim>\<open>.second_name\<close> (which may be \<^verbatim>\<open>None\<close>) and
  \<^verbatim>\<open>.surname\<close>.
\<close>

record pupil =
  pupil_id :: int
  first_name :: string
  second_name :: "string option"
  surname :: string

record account =
  pupil :: pupil

text \<open>The payload of an entry: \<^verbatim>\<open>{"student_id": ..., "credential": ...}\<close>.\<close>

record 'j entry_data =
  student_id :: string
  credential :: 'j

text \<open>
  A config entry of the host platform: its key \<^verbatim>\<open>entry_id\<close>, the \<^verbatim>\<open>unique_id\<close> the flow
  that created it had set, its title and its data.
\<close>

record 'j config_entry =
  entry_id :: nat
  unique_id :: "string option"
  title :: string
  data :: "'j entry_data"

text \<open>
  The part of \<^verbatim>\<open>hass\<close> the flow touches: the entries of this domain, in the order
  \<^verbatim>\<open>async_entries(DOMAIN)\<close> lists them, and the calls of \<^verbatim>\<open>async_reload\<close> made so far.
\<close>

record 'j hass =
  entries :: "'j config_entry list"
  reloaded :: "nat list"

text \<open>
  The handler object: \<^verbatim>\<open>self.credential\<close>, \<^verbatim>\<open>self.students\<close> and the unique id set by
  \<^verbatim>\<open>async_set_unique_id\<close>.
\<close>

record 'c flow =
  flow_credential :: "'c option"
  flow_students :: "account list option"
  flow_unique_id :: "string option"

text \<open>
  The collaborators, as parameters: \<^verbatim>\<open>RsaCredential.create_new\<close>,
  \<^verbatim>\<open>IrisHebeApi.register_by_token\<close> and \<^verbatim>\<open>get_accounts\<close> (each call returns or raises),
  and the serialisation \<^verbatim>\<open>model_dump\<close> / \<^verbatim>\<open>model_validate\<close> of a credential.
\<close>

record ('c, 'j) env =
  create_new :: 'c
  register_by_token :: "'c \<Rightarrow> string \<Rightarrow> string \<Rightarrow> string \<Rightarrow> exn + unit"
  get_accounts :: "'c \<Rightarrow> exn + account list"
  model_dump :: "'c \<Rightarrow> 'j"
  model_validate :: "'j \<Rightarrow> exn + 'c"

text \<open>The user input of the \<^verbatim>\<open>auth\<close> and \<^verbatim>\<open>reauth_confirm\<close> forms (\<^verbatim>\<open>LOGIN_SCHEMA\<close>).\<close>

record login =
  CONF_TOKEN :: string
  CONF_REGION :: string
  CONF_PIN :: string

text \<open>
  The data schema of a form. A Python \<^verbatim>\<open>dict\<close> is an association list in insertion
  order; \<^verbatim>\<open>d[k] = v\<close> is \<^const>\<open>AList.update\<close>.
\<close>

datatype schema =
    LOGIN_SCHEMA
  | StudentSchema "(string \<times> string) list"
  | CredentialsSchema "(nat \<times> string) list"
  | UseSavedCredentialsSchema

text \<open>
  What a step hands back to the flow manager. The \<^verbatim>\<open>errors\<close> argument of
  \<^verbatim>\<open>async_show_form\<close> is \<^verbatim>\<open>None\<close> or a dictionary.
\<close>

datatype 'j flow_result =
    ShowForm string schema "(string \<times> string) list option"
  | CreateEntry string "'j entry_data"
  | Abort string

type_synonym ('c, 'j) outcome = "exn + ('j flow_result \<times> 'j hass \<times> 'c flow)"

section \<open>Display-name formatting\<close>

text \<open>Python's \<^verbatim>\<open>sep.join(parts)\<close>.\<close>

fun join :: "string \<Rightarrow> string list \<Rightarrow> string" where
  "join sep [] = []"
| "join sep [p] = p"
| "join sep (p # q # ps) = p @ sep @ join sep (q # ps)"

text \<open>Truthiness of an optional string: \<^verbatim>\<open>None\<close> and \<^verbatim>\<open>""\<close> are false.\<close>

fun truthy :: "string option \<Rightarrow> bool" where
  "truthy None = False"
| "truthy (Some s) = (s \<noteq> [])"

definition format_student_name :: "account \<Rightarrow> string" where
  "format_student_name student =
     (let parts = [first_name (pupil student)];
          parts = (if truthy (second_name (pupil student))
                   then parts @ [the (second_name (pupil student))] else parts);
          parts = parts @ [surname (pupil student)]
      in join '' '' (filter (\<lambda>part. part \<noteq> []) parts))"

text \<open>Two adjacent spaces somewhere in a string.\<close>

fun double_space :: "string \<Rightarrow> bool" where
  "double_space (a # b # s) = ((a = CHR '' '' \<and> b = CHR '' '') \<or> double_space (b # s))"
| "double_space _ = False"

text \<open>An account with the given pupil attributes.\<close>

definition mk_account :: "int \<Rightarrow> string \<Rightarrow> string option \<Rightarrow> string \<Rightarrow> account" where
  "mk_account i f m s =
     \<lparr>pupil = \<lparr>pupil_id = i, first_name = f, second_name = m, surname = s\<rparr>\<rparr>"

section \<open>Python's \<^verbatim>\<open>str\<close> of an integer\<close>

definition digit_char :: "nat \<Rightarrow> char" where
  "digit_char d = ''0123456789'' ! d"

function str_nat :: "nat \<Rightarrow> string" where
  "str_nat n = (if n < 10 then [digit_char n] else str_nat (n div 10) @ [digit_char (n mod 10)])"
  by pat_completeness auto
termination
  by (relation "measure id") auto

declare str_nat.simps [simp del]

definition str_int :: "int \<Rightarrow> string" where
  "str_int i = (if i < 0 then CHR ''-'' # str_nat (nat (- i)) else str_nat (nat i))"

section \<open>The collaborators' calls\<close>

text \<open>
  \<^verbatim>\<open>register\<close> of \<^verbatim>\<open>register.py\<close>: a new credential is made, registered by token, and
  returned; a failure of the registration call propagates.
\<close>

definition register :: "('c, 'j) env \<Rightarrow> string \<Rightarrow> string \<Rightarrow> string \<Rightarrow> exn + 'c" where
  "register env token symbol pin =
     (let cred = create_new env
      in case register_by_token env cred token pin symbol of
           Inl err \<Rightarrow> Inl err
         | Inr _ \<Rightarrow> Inr cred)"

text \<open>\<^verbatim>\<open>IrisClient.get_students\<close> of \<^verbatim>\<open>iris_client.py\<close>.\<close>

definition get_students :: "('c, 'j) env \<Rightarrow> 'c \<Rightarrow> exn + account list" where
  "get_students env cred = get_accounts env cred"

text \<open>
  The body of the \<^verbatim>\<open>try\<close> block of \<^verbatim>\<open>async_step_auth\<close> and \<^verbatim>\<open>async_step_reauth_confirm\<close>:
  registration, then the directory lookup with the new credential.
\<close>

definition register_and_get_students ::
  "('c, 'j) env \<Rightarrow> login \<Rightarrow> exn + ('c \<times> account list)" where
  "register_and_get_students env user_input =
     (case register env (CONF_TOKEN user_input) (CONF_REGION user_input) (CONF_PIN user_input) of
        Inl err \<Rightarrow> Inl err
      | Inr cred \<Rightarrow>
          (case get_students env cred of
             Inl err \<Rightarrow> Inl err
           | Inr students \<Rightarrow> Inr (cred, students)))"

text \<open>
  The \<^verbatim>\<open>except\<close> clauses of \<^verbatim>\<open>async_step_auth\<close> and \<^verbatim>\<open>async_step_reauth_confirm\<close>, in
  their order: the error code stored under \<^verbatim>\<open>"base"\<close>.
\<close>

definition login_error_code :: "exn \<Rightarrow> string" where
  "login_error_code err =
     (if err = MissingUnitSymbolException then ''invalid_symbol''
      else if err = WrongTokenException \<or> err = UsedTokenException then ''invalid_token''
      else if err = WrongPINException then ''invalid_pin''
      else if err = ExpiredTokenException then ''expired_token''
      else if err = FailedRequestException \<or> err = HttpUnsuccessfullStatusException
        then ''cannot_connect''
      else if err = ClientConnectionError then ''cannot_connect''
      else ''unknown'')"

section \<open>The host platform's entry store\<close>

text \<open>
  Modelled from the spec: the flow-manager side of the host platform, which is not part
  of the sources. \<^verbatim>\<open>_abort_if_unique_id_configured\<close> aborts the flow with reason
  \<^verbatim>\<open>already_configured\<close> when an entry of the domain has the flow's unique id;
  \<^verbatim>\<open>async_create_entry\<close> ends the flow, and the manager stores a new entry under a fresh
  \<^verbatim>\<open>entry_id\<close> with the flow's unique id; \<^verbatim>\<open>async_reload\<close> is recorded by its argument.
  One flow session is modelled: other flows in progress and ignored entries are left out.
\<close>

definition unique_id_configured :: "'j hass \<Rightarrow> 'c flow \<Rightarrow> bool" where
  "unique_id_configured hass flow =
     (flow_unique_id flow \<noteq> None \<and>
      (\<exists>entry \<in> set (entries hass). unique_id entry = flow_unique_id flow))"

definition fresh_entry_id :: "'j config_entry list \<Rightarrow> nat" where
  "fresh_entry_id es = Suc (fold max (map entry_id es) 0)"

definition async_create_entry ::
  "'j hass \<Rightarrow> 'c flow \<Rightarrow> string \<Rightarrow> 'j entry_data \<Rightarrow> 'j flow_result \<times> 'j hass \<times> 'c flow" where
  "async_create_entry hass flow t d =
     (CreateEntry t d,
      hass\<lparr>entries := entries hass @
        [\<lparr>entry_id = fresh_entry_id (entries hass), unique_id = flow_unique_id flow,
          title = t, data = d\<rparr>]\<rparr>,
      flow)"

definition async_get_entry :: "'j hass \<Rightarrow> nat \<Rightarrow> 'j config_entry option" where
  "async_get_entry hass eid = find (\<lambda>entry. entry_id entry = eid) (entries hass)"

definition async_set_unique_id :: "'c flow \<Rightarrow> string \<Rightarrow> 'c flow" where
  "async_set_unique_id flow uid = flow\<lparr>flow_unique_id := Some uid\<rparr>"

text \<open>
  The tail shared by the four places that create an entry (lines 114--122, 139--147,
  185--193 and 247--255): after \<^verbatim>\<open>async_set_unique_id\<close>, abort when the id is
  configured, else create the entry.
\<close>

definition abort_or_create ::
  "'j hass \<Rightarrow> 'c flow \<Rightarrow> string \<Rightarrow> 'j entry_data \<Rightarrow> 'j flow_result \<times> 'j hass \<times> 'c flow" where
  "abort_or_create hass flow t d =
     (if unique_id_configured hass flow then (Abort ''already_configured'', hass, flow)
      else async_create_entry hass flow t d)"

section \<open>The steps of \<^verbatim>\<open>VulcanFlowHandler\<close>\<close>

text \<open>
  The dictionary \<^verbatim>\<open>students\<close> of \<^verbatim>\<open>async_step_select_student\<close>: from \<^verbatim>\<open>str(pupil.id)\<close>
  to the formatted name, filled in the order of \<^verbatim>\<open>self.students\<close>.
\<close>

definition students_dict :: "account list option \<Rightarrow> (string \<times> string) list" where
  "students_dict students =
     (case students of
        None \<Rightarrow> []
      | Some ss \<Rightarrow>
          fold (\<lambda>student d.
                  AList.update (str_int (pupil_id (pupil student))) (format_student_name student) d)
            ss [])"

text \<open>
  \<^verbatim>\<open>async_step_select_student\<close>. The title \<^verbatim>\<open>students[student_id]\<close> is looked up after
  \<^verbatim>\<open>_abort_if_unique_id_configured\<close>; a missing key raises \<^verbatim>\<open>KeyError\<close>.
\<close>

definition async_step_select_student ::
  "('c, 'j) env \<Rightarrow> 'j hass \<Rightarrow> 'c flow \<Rightarrow> string option \<Rightarrow> ('c, 'j) outcome" where
  "async_step_select_student env hass flow user_input =
     (let students = students_dict (flow_students flow)
      in case user_input of
           None \<Rightarrow> Inr (ShowForm ''select_student'' (StudentSchema students) (Some []), hass, flow)
         | Some sid \<Rightarrow>
             (case flow_credential flow of
                None \<Rightarrow>
                  Inr (ShowForm ''select_student'' (StudentSchema students) (Some []), hass, flow)
              | Some cred \<Rightarrow>
                  (let flow = async_set_unique_id flow sid
                   in if unique_id_configured hass flow
                      then Inr (Abort ''already_configured'', hass, flow)
                      else (case map_of students sid of
                              None \<Rightarrow> Inl KeyError
                            | Some t \<Rightarrow>
                                Inr (async_create_entry hass flow t
                                  \<lparr>student_id = sid, credential = model_dump env cred\<rparr>)))))"

text \<open>\<^verbatim>\<open>async_step_auth\<close>; \<^verbatim>\<open>students[0]\<close> of an empty list raises \<^verbatim>\<open>IndexError\<close>.\<close>

definition async_step_auth ::
  "('c, 'j) env \<Rightarrow> 'j hass \<Rightarrow> 'c flow \<Rightarrow> login option \<Rightarrow> (string \<times> string) list option
     \<Rightarrow> ('c, 'j) outcome" where
  "async_step_auth env hass flow user_input errors =
     (case user_input of
        None \<Rightarrow> Inr (ShowForm ''auth'' LOGIN_SCHEMA errors, hass, flow)
      | Some ui \<Rightarrow>
          (case register_and_get_students env ui of
             Inl err \<Rightarrow>
               Inr (ShowForm ''auth'' LOGIN_SCHEMA (Some [(''base'', login_error_code err)]),
                    hass, flow)
           | Inr (cred, students) \<Rightarrow>
               if length students > 1
               then async_step_select_student env hass
                      (flow\<lparr>flow_credential := Some cred, flow_students := Some students\<rparr>) None
               else (case students of
                       [] \<Rightarrow> Inl IndexError
                     | student # _ \<Rightarrow>
                         (let flow = async_set_unique_id flow (str_int (pupil_id (pupil student)))
                          in Inr (abort_or_create hass flow (format_student_name student)
                                    \<lparr>student_id = str_int (pupil_id (pupil student)),
                                     credential = model_dump env cred\<rparr>)))))"

text \<open>
  The dictionary \<^verbatim>\<open>credentials\<close> of \<^verbatim>\<open>async_step_select_saved_credentials\<close>:
  \<^verbatim>\<open>entry.title or entry.data["student_id"]\<close> under each \<^verbatim>\<open>entry_id\<close>.
\<close>

definition credentials_dict :: "'j hass \<Rightarrow> (nat \<times> string) list" where
  "credentials_dict hass =
     fold (\<lambda>entry d.
             AList.update (entry_id entry)
               (if title entry \<noteq> [] then title entry else student_id (data entry)) d)
       (entries hass) []"

text \<open>
  \<^verbatim>\<open>async_step_select_saved_credentials\<close>. \<^verbatim>\<open>async_get_entry\<close> gives \<^verbatim>\<open>None\<close> for an unknown
  id, whose \<^verbatim>\<open>.data\<close> raises \<^verbatim>\<open>AttributeError\<close>; \<^verbatim>\<open>model_validate\<close> is outside the \<^verbatim>\<open>try\<close>.
  The step calls itself with no user input to show its form again.
\<close>

function async_step_select_saved_credentials ::
  "('c, 'j) env \<Rightarrow> 'j hass \<Rightarrow> 'c flow \<Rightarrow> nat option \<Rightarrow> (string \<times> string) list option
     \<Rightarrow> ('c, 'j) outcome" where
  "async_step_select_saved_credentials env hass flow None errors =
     Inr (ShowForm ''select_saved_credentials'' (CredentialsSchema (credentials_dict hass)) errors,
          hass, flow)"
| "async_step_select_saved_credentials env hass flow (Some eid) errors =
     (case async_get_entry hass eid of
        None \<Rightarrow> Inl AttributeError
      | Some entry \<Rightarrow>
          (case model_validate env (credential (data entry)) of
             Inl err \<Rightarrow> Inl err
           | Inr cred \<Rightarrow>
               (case get_students env cred of
                  Inl err \<Rightarrow>
                    if err = CertificateNotFoundException
                    then async_step_auth env hass flow None
                           (Some [(''base'', ''expired_credentials'')])
                    else if err = FailedRequestException \<or> err = HttpUnsuccessfullStatusException
                    then async_step_select_saved_credentials env hass flow None
                           (Some [(''base'', ''cannot_connect'')])
                    else if err = ClientConnectionError
                    then async_step_select_saved_credentials env hass flow None
                           (Some [(''base'', ''cannot_connect'')])
                    else async_step_auth env hass flow None (Some [(''base'', ''unknown'')])
                | Inr students \<Rightarrow>
                    if length students = 1
                    then (let student = students ! 0;
                              flow = async_set_unique_id flow (str_int (pupil_id (pupil student)))
                          in Inr (abort_or_create hass flow (format_student_name student)
                                    \<lparr>student_id = str_int (pupil_id (pupil student)),
                                     credential = model_dump env cred\<rparr>))
                    else async_step_select_student env hass
                           (flow\<lparr>flow_credential := Some cred, flow_students := Some students\<rparr>)
                           None)))"
  by pat_completeness auto
termination
  by (relation "measure (\<lambda>(env, hass, flow, user_input, errors).
        case user_input of None \<Rightarrow> 0 | Some _ \<Rightarrow> Suc 0)") auto

text \<open>
  \<^verbatim>\<open>async_step_add_next_config_entry\<close>. There is no \<^verbatim>\<open>except Exception\<close> clause here: a
  failure of the lookup other than the four named ones leaves the step as an exception.
\<close>

definition async_step_add_next_config_entry ::
  "('c, 'j) env \<Rightarrow> 'j hass \<Rightarrow> 'c flow \<Rightarrow> bool option \<Rightarrow> ('c, 'j) outcome" where
  "async_step_add_next_config_entry env hass flow user_input =
     (let existing_entries = entries hass
      in case user_input of
           None \<Rightarrow>
             Inr (ShowForm ''add_next_config_entry'' UseSavedCredentialsSchema (Some []), hass, flow)
         | Some use_saved_credentials \<Rightarrow>
             if \<not> use_saved_credentials then async_step_auth env hass flow None None
             else if length existing_entries > 1
             then async_step_select_saved_credentials env hass flow None None
             else (case existing_entries of
                     [] \<Rightarrow> Inl IndexError
                   | entry0 # _ \<Rightarrow>
                       (case model_validate env (credential (data entry0)) of
                          Inl err \<Rightarrow> Inl err
                        | Inr cred \<Rightarrow>
                            (case get_students env cred of
                               Inl err \<Rightarrow>
                                 if err = CertificateNotFoundException
                                 then async_step_auth env hass flow None
                                        (Some [(''base'', ''expired_credentials'')])
                                 else if err = FailedRequestException
                                       \<or> err = HttpUnsuccessfullStatusException
                                 then Inr (ShowForm ''add_next_config_entry''
                                             UseSavedCredentialsSchema
                                             (Some [(''base'', ''cannot_connect'')]), hass, flow)
                                 else if err = ClientConnectionError
                                 then Inr (ShowForm ''add_next_config_entry''
                                             UseSavedCredentialsSchema
                                             (Some [(''base'', ''cannot_connect'')]), hass, flow)
                                 else Inl err
                             | Inr students \<Rightarrow>
                                 (let existing_entry_ids =
                                        map (\<lambda>entry. student_id (data entry)) existing_entries;
                                      new_students =
                                        filter (\<lambda>student. str_int (pupil_id (pupil student))
                                                  \<notin> set existing_entry_ids) students
                                  in if new_students = []
                                     then Inr (Abort ''all_student_already_configured'', hass, flow)
                                     else if length new_students = 1
                                     then (let student = new_students ! 0;
                                               flow = async_set_unique_id flow
                                                        (str_int (pupil_id (pupil student)))
                                           in Inr (abort_or_create hass flow
                                                     (format_student_name student)
                                                     \<lparr>student_id = str_int (pupil_id (pupil student)),
                                                      credential = model_dump env cred\<rparr>))
                                     else async_step_select_student env hass
                                            (flow\<lparr>flow_credential := Some cred,
                                                  flow_students := Some new_students\<rparr>)
                                            None)))))"

text \<open>\<^verbatim>\<open>async_step_user\<close>, the start of the flow.\<close>

definition async_step_user :: "('c, 'j) env \<Rightarrow> 'j hass \<Rightarrow> 'c flow \<Rightarrow> ('c, 'j) outcome" where
  "async_step_user env hass flow =
     (if entries hass \<noteq> [] then async_step_add_next_config_entry env hass flow None
      else async_step_auth env hass flow None None)"

section \<open>Reauthentication\<close>

text \<open>
  Modelled from the spec: \<^verbatim>\<open>async_update_entry\<close> of the host platform, called with a title
  and data: both are replaced in the entry, its \<^verbatim>\<open>entry_id\<close> and unique id stay.
\<close>

definition async_update_entry ::
  "'j config_entry \<Rightarrow> string \<Rightarrow> 'j entry_data \<Rightarrow> 'j config_entry" where
  "async_update_entry entry t d = entry\<lparr>title := t, data := d\<rparr>"

text \<open>The test \<^verbatim>\<open>str(student.pupil.id) == str(entry.data["student_id"])\<close>.\<close>

definition student_matches :: "account \<Rightarrow> 'j config_entry \<Rightarrow> bool" where
  "student_matches student entry =
     (str_int (pupil_id (pupil student)) = student_id (data entry))"

text \<open>
  The inner loop of \<^verbatim>\<open>async_step_reauth_confirm\<close>, \<^verbatim>\<open>for entry in existing_entries\<close>, for
  one student: every entry whose \<^verbatim>\<open>student_id\<close> is the student's is updated in place
  (\<^verbatim>\<open>async_update_entry\<close> with the new title and data) and reloaded. The result is the
  list of entries after the loop, the \<^verbatim>\<open>entry_id\<close>s reloaded, and whether one matched.
\<close>

fun reauth_scan ::
  "account \<Rightarrow> 'j \<Rightarrow> 'j config_entry list \<Rightarrow> 'j config_entry list \<times> nat list \<times> bool" where
  "reauth_scan student d [] = ([], [], False)"
| "reauth_scan student d (entry # existing_entries) =
     (case reauth_scan student d existing_entries of
        (es, ids, matching) \<Rightarrow>
          if student_matches student entry
          then (async_update_entry entry (format_student_name student)
                  \<lparr>student_id = str_int (pupil_id (pupil student)), credential = d\<rparr> # es,
                entry_id entry # ids, True)
          else (entry # es, ids, matching))"

text \<open>The outer loop, \<^verbatim>\<open>for student in students\<close>, with the flag \<^verbatim>\<open>matching_entries\<close>.\<close>

fun reauth_students :: "account list \<Rightarrow> 'j \<Rightarrow> 'j hass \<times> bool \<Rightarrow> 'j hass \<times> bool" where
  "reauth_students [] d st = st"
| "reauth_students (student # students) d (hass, matching_entries) =
     (case reauth_scan student d (entries hass) of
        (es, ids, matching) \<Rightarrow>
          reauth_students students d
            (hass\<lparr>entries := es, reloaded := reloaded hass @ ids\<rparr>, matching_entries \<or> matching))"

text \<open>\<^verbatim>\<open>async_step_reauth_confirm\<close> and \<^verbatim>\<open>async_step_reauth\<close>, which calls it with no input.\<close>

definition async_step_reauth_confirm ::
  "('c, 'j) env \<Rightarrow> 'j hass \<Rightarrow> 'c flow \<Rightarrow> login option \<Rightarrow> ('c, 'j) outcome" where
  "async_step_reauth_confirm env hass flow user_input =
     (case user_input of
        None \<Rightarrow> Inr (ShowForm ''reauth_confirm'' LOGIN_SCHEMA (Some []), hass, flow)
      | Some ui \<Rightarrow>
          (case register_and_get_students env ui of
             Inl err \<Rightarrow>
               Inr (ShowForm ''reauth_confirm'' LOGIN_SCHEMA
                      (Some [(''base'', login_error_code err)]), hass, flow)
           | Inr (cred, students) \<Rightarrow>
               (case reauth_students students (model_dump env cred) (hass, False) of
                  (hass, matching_entries) \<Rightarrow>
                    if \<not> matching_entries then Inr (Abort ''no_matching_entries'', hass, flow)
                    else Inr (Abort ''reauth_successful'', hass, flow))))"

definition async_step_reauth :: "('c, 'j) env \<Rightarrow> 'j hass \<Rightarrow> 'c flow \<Rightarrow> ('c, 'j) outcome" where
  "async_step_reauth env hass flow = async_step_reauth_confirm env hass flow None"

section \<open>The effect of a step on the entry store\<close>

text \<open>
  What a step of the onboarding flow may do to the store, given its result: a created
  entry is appended under a unique id that no stored entry had, and the stored entries stay
  as they were; any other result leaves the store as it was.
\<close>

definition store_effect :: "'j hass \<Rightarrow> 'j flow_result \<Rightarrow> 'j hass \<Rightarrow> bool" where
  "store_effect hass r hass' =
     (case r of
        CreateEntry t d \<Rightarrow>
          (\<forall>entry \<in> set (entries hass). unique_id entry \<noteq> Some (student_id d)) \<and>
          hass' = hass\<lparr>entries := entries hass @
                    [\<lparr>entry_id = fresh_entry_id (entries hass),
                      unique_id = Some (student_id d), title = t, data = d\<rparr>]\<rparr>
      | _ \<Rightarrow> hass' = hass)"

section \<open>Facts about joining and about \<^verbatim>\<open>str\<close>\<close>

lemma nospace_no_ds: "CHR '' '' \<notin> set p \<Longrightarrow> \<not> double_space p"
  by (induction p rule: double_space.induct) auto

lemma ds_cons: "\<not> double_space q \<Longrightarrow> (q \<noteq> [] \<Longrightarrow> hd q \<noteq> CHR '' '') \<Longrightarrow> \<not> double_space (CHR '' '' # q)"
  by (cases q) auto

lemma double_space_append:
  "\<not> double_space q \<Longrightarrow> CHR '' '' \<notin> set p \<Longrightarrow> p \<noteq> [] \<Longrightarrow> \<not> double_space (p @ q)"
proof (induction p)
  case Nil
  then show ?case by simp
next
  case (Cons a p)
  show ?case
  proof (cases p)
    case Nil
    then show ?thesis using Cons.prems by (cases q) auto
  next
    case (Cons b p')
    then show ?thesis using Cons.IH Cons.prems by auto
  qed
qed

lemma join_hd: "ps \<noteq> [] \<Longrightarrow> \<forall>p \<in> set ps. p \<noteq> [] \<and> CHR '' '' \<notin> set p \<Longrightarrow> join sep ps \<noteq> [] \<and> hd (join sep ps) \<noteq> CHR '' ''"
proof (induction sep ps rule: join.induct)
  case (1 sep)
  then show ?case by simp
next
  case (2 sep p)
  then show ?case by (cases p) auto
next
  case (3 sep p q ps)
  then show ?case by (cases p) auto
qed

lemma join_no_ds: "\<forall>p \<in> set ps. p \<noteq> [] \<and> CHR '' '' \<notin> set p \<Longrightarrow> \<not> double_space (join '' '' ps)"
proof (induction ps)
  case Nil
  then show ?case by simp
next
  case (Cons p ps)
  show ?case
  proof (cases ps)
    case Nil
    then show ?thesis using Cons.prems by (simp add: nospace_no_ds)
  next
    case (Cons q qs)
    have a: "\<not> double_space (join '' '' ps)" using Cons.IH Cons.prems by simp
    have b: "join '' '' ps \<noteq> [] \<and> hd (join '' '' ps) \<noteq> CHR '' ''"
      using join_hd[of ps "'' ''"] Cons.prems Cons by simp
    have c: "\<not> double_space (CHR '' '' # join '' '' ps)"
      using a b by (simp add: ds_cons)
    have d: "p \<noteq> [] \<and> CHR '' '' \<notin> set p" using Cons.prems by simp
    have "\<not> double_space (p @ (CHR '' '' # join '' '' ps))"
      using double_space_append[OF c] d by blast
    then show ?thesis using Cons by simp
  qed
qed

lemma digit_char_inj: "a < 10 \<Longrightarrow> b < 10 \<Longrightarrow> digit_char a = digit_char b \<Longrightarrow> a = b"
  using nth_eq_iff_index_eq[of "''0123456789''" a b] by (simp add: digit_char_def)

lemma digit_char_in: "a < 10 \<Longrightarrow> digit_char a \<in> set ''0123456789''"
  unfolding digit_char_def by (rule nth_mem) simp

lemma digit_char_not_minus: "a < 10 \<Longrightarrow> digit_char a \<noteq> CHR ''-''"
  using digit_char_in[of a] by auto

lemma str_nat_not_Nil: "str_nat n \<noteq> []"
  by (subst str_nat.simps) simp

lemma str_nat_digits: "c \<in> set (str_nat n) \<Longrightarrow> c \<noteq> CHR ''-''"
proof (induction n rule: str_nat.induct)
  case (1 n)
  show ?case
  proof (cases "n < 10")
    case True
    then show ?thesis using 1(2) digit_char_not_minus[of n] by (subst (asm) str_nat.simps) simp
  next
    case False
    have "n mod 10 < 10" by simp
    then have "digit_char (n mod 10) \<noteq> CHR ''-''" by (rule digit_char_not_minus)
    then show ?thesis using False 1 by (subst (asm) (2) str_nat.simps) auto
  qed
qed

lemma str_nat_inj: "str_nat m = str_nat n \<Longrightarrow> m = n"
proof (induction m arbitrary: n rule: str_nat.induct)
  case (1 m)
  show ?case
  proof (cases "m < 10")
    case m: True
    show ?thesis
    proof (cases "n < 10")
      case True
      then show ?thesis using m 1(2) digit_char_inj[of m n]
        by (simp add: str_nat.simps[of m] str_nat.simps[of n])
    next
      case False
      then show ?thesis using m 1(2) str_nat_not_Nil[of "n div 10"]
        by (simp add: str_nat.simps[of m] str_nat.simps[of n])
    qed
  next
    case m: False
    show ?thesis
    proof (cases "n < 10")
      case True
      then show ?thesis using m 1(2) str_nat_not_Nil[of "m div 10"]
        by (simp add: str_nat.simps[of m] str_nat.simps[of n])
    next
      case False
      then have e: "str_nat (m div 10) = str_nat (n div 10) \<and> digit_char (m mod 10) = digit_char (n mod 10)"
        using m 1(2) by (simp add: str_nat.simps[of m] str_nat.simps[of n])
      then have "m div 10 = n div 10" using 1(1)[OF m] by simp
      moreover have "m mod 10 = n mod 10" using e digit_char_inj[of "m mod 10" "n mod 10"] by simp
      ultimately show ?thesis by (metis div_mult_mod_eq)
    qed
  qed
qed

lemma str_int_inj: "str_int i = str_int j \<Longrightarrow> i = j"
proof -
  assume a: "str_int i = str_int j"
  have h: "\<And>n xs. str_nat n \<noteq> CHR ''-'' # xs \<and> CHR ''-'' # xs \<noteq> str_nat n"
    by (metis str_nat_digits list.set_intros(1))
  show ?thesis
  proof (cases "i < 0")
    case i: True
    show ?thesis
    proof (cases "j < 0")
      case True
      then have "nat (- i) = nat (- j)" using a i str_nat_inj by (simp add: str_int_def)
      then show ?thesis using i True by simp
    next
      case False
      then show ?thesis using a i h[of "nat j"] by (simp add: str_int_def)
    qed
  next
    case i: False
    show ?thesis
    proof (cases "j < 0")
      case True
      then show ?thesis using a i h[of "nat i"] by (simp add: str_int_def)
    next
      case False
      then have "nat i = nat j" using a i str_nat_inj by (simp add: str_int_def)
      then show ?thesis using i False by simp
    qed
  qed
qed

section \<open>Display-name formatting: the claims\<close>

text \<open>
  C1 (as stated, refuted): a middle name that consists only of whitespace is said to be
  omitted, so that the result never has a double space. The test
  \<^verbatim>\<open>if student.pupil.second_name\<close> is Python truthiness, and \<^verbatim>\<open>" "\<close> is true: the middle
  name \<^verbatim>\<open>" "\<close> is kept, and \<^verbatim>\<open>("Jan", " ", "Kowalski")\<close> gives \<^verbatim>\<open>"Jan   Kowalski"\<close>, with three
  spaces in a row.
\<close>

theorem format_student_name_whitespace_counterexample:
  "format_student_name (mk_account 1 ''Jan'' (Some '' '') ''Kowalski'') = ''Jan   Kowalski''
   \<and> format_student_name (mk_account 1 ''Jan'' (Some '' '') ''Kowalski'') \<noteq> ''Jan Kowalski''
   \<and> double_space (format_student_name (mk_account 1 ''Jan'' (Some '' '') ''Kowalski''))"
  by (simp add: format_student_name_def mk_account_def)

text \<open>
  C1 (amended): the display name is made of the first name, the middle name and the
  surname, leaving out a middle name that is absent and every part that is empty, joined
  with single spaces: for a non-empty first name and surname it is \<^verbatim>\<open>first surname\<close> when the
  middle name is absent or empty and \<^verbatim>\<open>first middle surname\<close> otherwise (a middle name of
  spaces is kept). When no part contains a space the result has no double space.
  \<^verbatim>\<open>("Jan", "", "Kowalski")\<close> and \<^verbatim>\<open>("Jan", None, "Kowalski")\<close> give \<^verbatim>\<open>"Jan Kowalski"\<close>, and
  \<^verbatim>\<open>("Jan", "Maria", "Kowalski")\<close> gives \<^verbatim>\<open>"Jan Maria Kowalski"\<close>.
\<close>

theorem format_student_name_spec:
  "(f \<noteq> [] \<and> s \<noteq> [] \<longrightarrow>
      format_student_name (mk_account i f None s) = f @ '' '' @ s
      \<and> format_student_name (mk_account i f (Some []) s) = f @ '' '' @ s
      \<and> (m \<noteq> [] \<longrightarrow> format_student_name (mk_account i f (Some m) s) = f @ '' '' @ m @ '' '' @ s))
   \<and> (CHR '' '' \<notin> set f \<and> CHR '' '' \<notin> set s \<and> (\<forall>x. mo = Some x \<longrightarrow> CHR '' '' \<notin> set x) \<longrightarrow>
      \<not> double_space (format_student_name (mk_account i f mo s)))
   \<and> format_student_name (mk_account i f mo s) =
       join '' '' (filter (\<lambda>part. part \<noteq> [])
                    ([f] @ (case mo of None \<Rightarrow> [] | Some x \<Rightarrow> [x]) @ [s]))
   \<and> format_student_name (mk_account j ''Jan'' (Some []) ''Kowalski'') = ''Jan Kowalski''
   \<and> format_student_name (mk_account j ''Jan'' (Some ''Maria'') ''Kowalski'') = ''Jan Maria Kowalski''
   \<and> format_student_name (mk_account j ''Jan'' None ''Kowalski'') = ''Jan Kowalski''"
proof -
  have a: "f \<noteq> [] \<and> s \<noteq> [] \<longrightarrow>
      format_student_name (mk_account i f None s) = f @ '' '' @ s
      \<and> format_student_name (mk_account i f (Some []) s) = f @ '' '' @ s
      \<and> (m \<noteq> [] \<longrightarrow> format_student_name (mk_account i f (Some m) s) = f @ '' '' @ m @ '' '' @ s)"
    by (simp add: format_student_name_def mk_account_def)
  have b: "CHR '' '' \<notin> set f \<and> CHR '' '' \<notin> set s \<and> (\<forall>x. mo = Some x \<longrightarrow> CHR '' '' \<notin> set x) \<longrightarrow>
      \<not> double_space (format_student_name (mk_account i f mo s))"
  proof
    assume h: "CHR '' '' \<notin> set f \<and> CHR '' '' \<notin> set s \<and> (\<forall>x. mo = Some x \<longrightarrow> CHR '' '' \<notin> set x)"
    show "\<not> double_space (format_student_name (mk_account i f mo s))"
      unfolding format_student_name_def mk_account_def Let_def
      apply (rule join_no_ds)
      using h by (cases mo) auto
  qed
  have c: "format_student_name (mk_account j ''Jan'' (Some []) ''Kowalski'') = ''Jan Kowalski''
     \<and> format_student_name (mk_account j ''Jan'' (Some ''Maria'') ''Kowalski'') = ''Jan Maria Kowalski''
     \<and> format_student_name (mk_account j ''Jan'' None ''Kowalski'') = ''Jan Kowalski''"
    by (simp add: format_student_name_def mk_account_def)
  have d: "format_student_name (mk_account i f mo s) =
       join '' '' (filter (\<lambda>part. part \<noteq> [])
                    ([f] @ (case mo of None \<Rightarrow> [] | Some x \<Rightarrow> [x]) @ [s]))"
    by (cases mo) (simp_all add: format_student_name_def mk_account_def Let_def)
  show ?thesis using a b c d by blast
qed

theorem format_student_name_spec_witness:
  "format_student_name (mk_account 7 ''Anna'' (Some ''Ewa'') ''Nowak'') = ''Anna Ewa Nowak''
   \<and> format_student_name (mk_account 7 ''Anna'' None ''Nowak'') = ''Anna Nowak''
   \<and> \<not> double_space (format_student_name (mk_account 7 ''Anna'' (Some ''Ewa'') ''Nowak''))"
  using format_student_name_spec [of "''Anna''" "''Nowak''" 7 "''Ewa''" "Some ''Ewa''" 0]
  by simp

section \<open>Error codes of the steps\<close>

text \<open>
  C8: whenever the registration call of \<^verbatim>\<open>async_step_auth\<close> or of
  \<^verbatim>\<open>async_step_reauth_confirm\<close> fails with \<^verbatim>\<open>ExpiredTokenException\<close>, the step shows its own
  form again with the error code \<^verbatim>\<open>expired_token\<close> (so not with \<^verbatim>\<open>unknown\<close>), and neither the
  store nor the session changes.
\<close>


theorem expired_token_reprompt:
  "register env (CONF_TOKEN ui) (CONF_REGION ui) (CONF_PIN ui) = Inl ExpiredTokenException \<Longrightarrow>
     async_step_auth env hass flow (Some ui) errors =
       Inr (ShowForm ''auth'' LOGIN_SCHEMA (Some [(''base'', ''expired_token'')]), hass, flow)
     \<and> async_step_reauth_confirm env hass flow (Some ui) =
       Inr (ShowForm ''reauth_confirm'' LOGIN_SCHEMA (Some [(''base'', ''expired_token'')]), hass, flow)"
  by (simp add: async_step_auth_def async_step_reauth_confirm_def register_and_get_students_def
      login_error_code_def)

theorem expired_token_reprompt_witness:
  "async_step_auth
     \<lparr>create_new = (0::nat), register_by_token = (\<lambda>c t p s. Inl ExpiredTokenException),
      get_accounts = (\<lambda>c. Inr []), model_dump = (\<lambda>c. c), model_validate = Inr\<rparr>
     \<lparr>entries = [], reloaded = []\<rparr>
     \<lparr>flow_credential = None, flow_students = None, flow_unique_id = None\<rparr>
     (Some \<lparr>CONF_TOKEN = ''3S1GFG0'', CONF_REGION = ''powiat'', CONF_PIN = ''123456''\<rparr>) None
   = Inr (ShowForm ''auth'' LOGIN_SCHEMA (Some [(''base'', ''expired_token'')]),
          \<lparr>entries = [], reloaded = []\<rparr>,
          \<lparr>flow_credential = None, flow_students = None, flow_unique_id = None\<rparr>)
   \<and> async_step_reauth_confirm
     \<lparr>create_new = (0::nat), register_by_token = (\<lambda>c t p s. Inl ExpiredTokenException),
      get_accounts = (\<lambda>c. Inr []), model_dump = (\<lambda>c. c), model_validate = Inr\<rparr>
     \<lparr>entries = [], reloaded = []\<rparr>
     \<lparr>flow_credential = None, flow_students = None, flow_unique_id = None\<rparr>
     (Some \<lparr>CONF_TOKEN = ''3S1GFG0'', CONF_REGION = ''powiat'', CONF_PIN = ''123456''\<rparr>)
   = Inr (ShowForm ''reauth_confirm'' LOGIN_SCHEMA (Some [(''base'', ''expired_token'')]),
          \<lparr>entries = [], reloaded = []\<rparr>,
          \<lparr>flow_credential = None, flow_students = None, flow_unique_id = None\<rparr>)"
  using expired_token_reprompt
    [of "\<lparr>create_new = (0::nat), register_by_token = (\<lambda>c t p s. Inl ExpiredTokenException),
      get_accounts = (\<lambda>c. Inr []), model_dump = (\<lambda>c. c), model_validate = Inr\<rparr>"
      "\<lparr>CONF_TOKEN = ''3S1GFG0'', CONF_REGION = ''powiat'', CONF_PIN = ''123456''\<rparr>"
      "\<lparr>entries = [], reloaded = []\<rparr>"
      "\<lparr>flow_credential = None, flow_students = None, flow_unique_id = None\<rparr>" None]
  by (simp add: register_def)

text \<open>
  C7: in \<^verbatim>\<open>async_step_select_saved_credentials\<close>, once the chosen entry's credential is
  loaded, a directory lookup that fails with \<^verbatim>\<open>CertificateNotFoundException\<close> leads to the
  form of \<^verbatim>\<open>auth\<close> with the error code \<^verbatim>\<open>expired_credentials\<close>; one that fails with a
  connection failure (\<^verbatim>\<open>FailedRequestException\<close>, \<^verbatim>\<open>HttpUnsuccessfullStatusException\<close> or
  \<^verbatim>\<open>ClientConnectionError\<close>) shows the form of \<^verbatim>\<open>select_saved_credentials\<close> again with the
  error code \<^verbatim>\<open>cannot_connect\<close>, not the form of \<^verbatim>\<open>auth\<close>.
\<close>


theorem select_saved_credentials_failures:
  "async_get_entry hass eid = Some entry \<Longrightarrow>
   model_validate env (credential (data entry)) = Inr cred \<Longrightarrow>
   get_students env cred = Inl err \<Longrightarrow>
     (err = CertificateNotFoundException \<longrightarrow>
        async_step_select_saved_credentials env hass flow (Some eid) errors =
          Inr (ShowForm ''auth'' LOGIN_SCHEMA (Some [(''base'', ''expired_credentials'')]), hass, flow))
     \<and> (err = FailedRequestException \<or> err = HttpUnsuccessfullStatusException
          \<or> err = ClientConnectionError \<longrightarrow>
        async_step_select_saved_credentials env hass flow (Some eid) errors =
          Inr (ShowForm ''select_saved_credentials'' (CredentialsSchema (credentials_dict hass))
                 (Some [(''base'', ''cannot_connect'')]), hass, flow))"
  by (auto simp add: async_step_auth_def)

theorem select_saved_credentials_failures_witness:
  "async_step_select_saved_credentials
     \<lparr>create_new = (0::nat), register_by_token = (\<lambda>c t p s. Inr ()),
      get_accounts = (\<lambda>c. if c = 5 then Inl CertificateNotFoundException
                        else Inl ClientConnectionError),
      model_dump = (\<lambda>c. c), model_validate = Inr\<rparr>
     \<lparr>entries = [\<lparr>entry_id = 1, unique_id = Some ''11'', title = ''Jan Kowalski'',
                   data = \<lparr>student_id = ''11'', credential = 5\<rparr>\<rparr>,
                 \<lparr>entry_id = 2, unique_id = Some ''12'', title = [],
                   data = \<lparr>student_id = ''12'', credential = 6\<rparr>\<rparr>],
      reloaded = []\<rparr>
     \<lparr>flow_credential = None, flow_students = None, flow_unique_id = None\<rparr>
     (Some 1) None
   = Inr (ShowForm ''auth'' LOGIN_SCHEMA (Some [(''base'', ''expired_credentials'')]),
          \<lparr>entries = [\<lparr>entry_id = 1, unique_id = Some ''11'', title = ''Jan Kowalski'',
                   data = \<lparr>student_id = ''11'', credential = 5\<rparr>\<rparr>,
                 \<lparr>entry_id = 2, unique_id = Some ''12'', title = [],
                   data = \<lparr>student_id = ''12'', credential = 6\<rparr>\<rparr>],
            reloaded = []\<rparr>,
          \<lparr>flow_credential = None, flow_students = None, flow_unique_id = None\<rparr>)
   \<and> async_step_select_saved_credentials
     \<lparr>create_new = (0::nat), register_by_token = (\<lambda>c t p s. Inr ()),
      get_accounts = (\<lambda>c. if c = 5 then Inl CertificateNotFoundException
                        else Inl ClientConnectionError),
      model_dump = (\<lambda>c. c), model_validate = Inr\<rparr>
     \<lparr>entries = [\<lparr>entry_id = 1, unique_id = Some ''11'', title = ''Jan Kowalski'',
                   data = \<lparr>student_id = ''11'', credential = 5\<rparr>\<rparr>,
                 \<lparr>entry_id = 2, unique_id = Some ''12'', title = [],
                   data = \<lparr>student_id = ''12'', credential = 6\<rparr>\<rparr>],
      reloaded = []\<rparr>
     \<lparr>flow_credential = None, flow_students = None, flow_unique_id = None\<rparr>
     (Some 2) None
   = Inr (ShowForm ''select_saved_credentials''
            (CredentialsSchema [(1, ''Jan Kowalski''), (2, ''12'')])
            (Some [(''base'', ''cannot_connect'')]),
          \<lparr>entries = [\<lparr>entry_id = 1, unique_id = Some ''11'', title = ''Jan Kowalski'',
                   data = \<lparr>student_id = ''11'', credential = 5\<rparr>\<rparr>,
                 \<lparr>entry_id = 2, unique_id = Some ''12'', title = [],
                   data = \<lparr>student_id = ''12'', credential = 6\<rparr>\<rparr>],
            reloaded = []\<rparr>,
          \<lparr>flow_credential = None, flow_students = None, flow_unique_id = None\<rparr>)"
  using select_saved_credentials_failures
    [of "\<lparr>entries = [\<lparr>entry_id = 1, unique_id = Some ''11'', title = ''Jan Kowalski'',
                   data = \<lparr>student_id = ''11'', credential = 5\<rparr>\<rparr>,
                 \<lparr>entry_id = 2, unique_id = Some ''12'', title = [],
                   data = \<lparr>student_id = ''12'', credential = 6\<rparr>\<rparr>],
      reloaded = []\<rparr>" 1
      "\<lparr>entry_id = 1, unique_id = Some ''11'', title = ''Jan Kowalski'',
                   data = \<lparr>student_id = ''11'', credential = 5\<rparr>\<rparr>"
      "\<lparr>create_new = (0::nat), register_by_token = (\<lambda>c t p s. Inr ()),
      get_accounts = (\<lambda>c. if c = 5 then Inl CertificateNotFoundException
                        else Inl ClientConnectionError),
      model_dump = (\<lambda>c. c), model_validate = Inr\<rparr>" 5 CertificateNotFoundException
      "\<lparr>flow_credential = None, flow_students = None, flow_unique_id = None\<rparr>" None]
    select_saved_credentials_failures
    [of "\<lparr>entries = [\<lparr>entry_id = 1, unique_id = Some ''11'', title = ''Jan Kowalski'',
                   data = \<lparr>student_id = ''11'', credential = 5\<rparr>\<rparr>,
                 \<lparr>entry_id = 2, unique_id = Some ''12'', title = [],
                   data = \<lparr>student_id = ''12'', credential = 6\<rparr>\<rparr>],
      reloaded = []\<rparr>" 2
      "\<lparr>entry_id = 2, unique_id = Some ''12'', title = [],
                   data = \<lparr>student_id = ''12'', credential = 6\<rparr>\<rparr>"
      "\<lparr>create_new = (0::nat), register_by_token = (\<lambda>c t p s. Inr ()),
      get_accounts = (\<lambda>c. if c = 5 then Inl CertificateNotFoundException
                        else Inl ClientConnectionError),
      model_dump = (\<lambda>c. c), model_validate = Inr\<rparr>" 6 ClientConnectionError
      "\<lparr>flow_credential = None, flow_students = None, flow_unique_id = None\<rparr>" None]
  by (simp add: async_get_entry_def get_students_def credentials_dict_def)

section \<open>Student selection\<close>

text \<open>
  C10: when \<^verbatim>\<open>async_step_select_student\<close> is called while \<^verbatim>\<open>self.credential\<close> is \<^verbatim>\<open>None\<close>, it
  shows the form \<^verbatim>\<open>select_student\<close> again, whatever the user input, and neither creates an
  entry nor raises; the step ends in a created entry only when both the user input and the
  stashed credential are present.
\<close>


theorem select_student_without_credential:
  "(flow_credential flow = None \<longrightarrow>
      async_step_select_student env hass flow user_input =
        Inr (ShowForm ''select_student'' (StudentSchema (students_dict (flow_students flow)))
               (Some []), hass, flow))
   \<and> (async_step_select_student env hass flow user_input = Inr (CreateEntry t d, hass', flow') \<longrightarrow>
        user_input \<noteq> None \<and> flow_credential flow \<noteq> None)"
  by (auto simp add: async_step_select_student_def Let_def split: option.splits)

theorem select_student_without_credential_witness:
  "async_step_select_student
     \<lparr>create_new = (0::nat), register_by_token = (\<lambda>c t p s. Inr ()),
      get_accounts = (\<lambda>c. Inr []), model_dump = (\<lambda>c. c), model_validate = Inr\<rparr>
     \<lparr>entries = [], reloaded = []\<rparr>
     \<lparr>flow_credential = None,
      flow_students = Some [mk_account 1 ''Jan'' None ''Kowalski'',
                            mk_account 2 ''Ewa'' (Some ''Maria'') ''Kowalska''],
      flow_unique_id = None\<rparr>
     (Some ''1'')
   = Inr (ShowForm ''select_student''
            (StudentSchema [(''1'', ''Jan Kowalski''), (''2'', ''Ewa Maria Kowalska'')]) (Some []),
          \<lparr>entries = [], reloaded = []\<rparr>,
          \<lparr>flow_credential = None,
           flow_students = Some [mk_account 1 ''Jan'' None ''Kowalski'',
                                 mk_account 2 ''Ewa'' (Some ''Maria'') ''Kowalska''],
           flow_unique_id = None\<rparr>)"
proof -
  have s1: "str_int 1 = ''1''" by code_simp
  have s2: "str_int 2 = ''2''" by code_simp
  show ?thesis
    using select_student_without_credential
      [of "\<lparr>flow_credential = None,
      flow_students = Some [mk_account 1 ''Jan'' None ''Kowalski'',
                            mk_account 2 ''Ewa'' (Some ''Maria'') ''Kowalska''],
      flow_unique_id = None\<rparr>"
       "\<lparr>create_new = (0::nat), register_by_token = (\<lambda>c t p s. Inr ()),
      get_accounts = (\<lambda>c. Inr []), model_dump = (\<lambda>c. c), model_validate = Inr\<rparr>"
       "\<lparr>entries = [], reloaded = []\<rparr>" "Some ''1''"]
    by (simp add: students_dict_def mk_account_def format_student_name_def s1 s2)
qed

section \<open>Exceptions that leave a step\<close>

text \<open>
  C9 (violated by the code): the steps are said never to raise. Two runs that do:
  \<^verbatim>\<open>async_step_auth\<close> with a successful registration and a directory result with no
  profile reaches \<^verbatim>\<open>students[0]\<close> in the \<^verbatim>\<open>else\<close> branch of its \<^verbatim>\<open>try\<close> and raises
  \<^verbatim>\<open>IndexError\<close>; \<^verbatim>\<open>async_step_add_next_config_entry\<close>, whose \<^verbatim>\<open>try\<close> has no
  \<^verbatim>\<open>except Exception\<close> clause (the other three steps have one), lets a lookup failure
  outside the named classes through.
\<close>


theorem steps_raise:
  "async_step_auth
     \<lparr>create_new = (0::nat), register_by_token = (\<lambda>c t p s. Inr ()),
      get_accounts = (\<lambda>c. Inr []), model_dump = (\<lambda>c. c), model_validate = Inr\<rparr>
     \<lparr>entries = [], reloaded = []\<rparr>
     \<lparr>flow_credential = None, flow_students = None, flow_unique_id = None\<rparr>
     (Some \<lparr>CONF_TOKEN = ''3S1GFG0'', CONF_REGION = ''powiat'', CONF_PIN = ''123456''\<rparr>) None
   = Inl IndexError
   \<and> async_step_add_next_config_entry
     \<lparr>create_new = (0::nat), register_by_token = (\<lambda>c t p s. Inr ()),
      get_accounts = (\<lambda>c. Inl (OtherException ''TimeoutError'')),
      model_dump = (\<lambda>c. c), model_validate = Inr\<rparr>
     \<lparr>entries = [\<lparr>entry_id = 1, unique_id = Some ''11'', title = ''Jan Kowalski'',
                   data = \<lparr>student_id = ''11'', credential = 5\<rparr>\<rparr>],
      reloaded = []\<rparr>
     \<lparr>flow_credential = None, flow_students = None, flow_unique_id = None\<rparr>
     (Some True)
   = Inl (OtherException ''TimeoutError'')"
  by (simp add: async_step_auth_def async_step_add_next_config_entry_def
      register_and_get_students_def register_def get_students_def)

section \<open>Adding a further entry\<close>

text \<open>
  C2 (as stated, refuted): the abort reason is said to be
  \<^verbatim>\<open>all_students_already_configured\<close>. The reason passed to \<^verbatim>\<open>async_abort\<close> is
  \<^verbatim>\<open>all_student_already_configured\<close>, with \<^verbatim>\<open>student\<close> in the singular.
\<close>


theorem add_next_all_configured_counterexample:
  "async_step_add_next_config_entry
     \<lparr>create_new = (0::nat), register_by_token = (\<lambda>c t p s. Inr ()),
      get_accounts = (\<lambda>c. Inr [mk_account 11 ''Jan'' None ''Kowalski'']),
      model_dump = (\<lambda>c. c), model_validate = Inr\<rparr>
     \<lparr>entries = [\<lparr>entry_id = 1, unique_id = Some ''11'', title = ''Jan Kowalski'',
                   data = \<lparr>student_id = ''11'', credential = 5\<rparr>\<rparr>],
      reloaded = []\<rparr>
     \<lparr>flow_credential = None, flow_students = None, flow_unique_id = None\<rparr>
     (Some True)
   \<noteq> Inr (Abort ''all_students_already_configured'',
          \<lparr>entries = [\<lparr>entry_id = 1, unique_id = Some ''11'', title = ''Jan Kowalski'',
                   data = \<lparr>student_id = ''11'', credential = 5\<rparr>\<rparr>],
            reloaded = []\<rparr>,
          \<lparr>flow_credential = None, flow_students = None, flow_unique_id = None\<rparr>)"
proof -
  have s: "str_int 11 = ''11''" by code_simp
  show ?thesis
    by (simp add: async_step_add_next_config_entry_def get_students_def mk_account_def s)
qed

text \<open>
  C2 (amended): when \<^verbatim>\<open>async_step_add_next_config_entry\<close> is told to use the saved
  credentials, exactly one entry is stored, its credential loads and the directory lookup
  returns profiles that all have a \<^verbatim>\<open>student_id\<close> of a stored entry, the step aborts with
  reason \<^verbatim>\<open>all_student_already_configured\<close>, and the store and the session are unchanged.
\<close>


theorem add_next_all_configured:
  "entries hass = [entry0] \<Longrightarrow>
   model_validate env (credential (data entry0)) = Inr cred \<Longrightarrow>
   get_students env cred = Inr students \<Longrightarrow>
   \<forall>student \<in> set students.
      \<exists>entry \<in> set (entries hass). student_id (data entry) = str_int (pupil_id (pupil student)) \<Longrightarrow>
   async_step_add_next_config_entry env hass flow (Some True) =
     Inr (Abort ''all_student_already_configured'', hass, flow)"
  by (auto simp add: async_step_add_next_config_entry_def Let_def filter_empty_conv)

theorem add_next_all_configured_witness:
  "async_step_add_next_config_entry
     \<lparr>create_new = (0::nat), register_by_token = (\<lambda>c t p s. Inr ()),
      get_accounts = (\<lambda>c. Inr [mk_account 11 ''Jan'' None ''Kowalski'']),
      model_dump = (\<lambda>c. c), model_validate = Inr\<rparr>
     \<lparr>entries = [\<lparr>entry_id = 1, unique_id = Some ''11'', title = ''Jan Kowalski'',
                   data = \<lparr>student_id = ''11'', credential = 5\<rparr>\<rparr>],
      reloaded = []\<rparr>
     \<lparr>flow_credential = None, flow_students = None, flow_unique_id = None\<rparr>
     (Some True)
   = Inr (Abort ''all_student_already_configured'',
          \<lparr>entries = [\<lparr>entry_id = 1, unique_id = Some ''11'', title = ''Jan Kowalski'',
                   data = \<lparr>student_id = ''11'', credential = 5\<rparr>\<rparr>],
            reloaded = []\<rparr>,
          \<lparr>flow_credential = None, flow_students = None, flow_unique_id = None\<rparr>)"
proof -
  have s: "str_int 11 = ''11''" by code_simp
  show ?thesis
    using add_next_all_configured
      [of "\<lparr>entries = [\<lparr>entry_id = 1, unique_id = Some ''11'', title = ''Jan Kowalski'',
                   data = \<lparr>student_id = ''11'', credential = 5\<rparr>\<rparr>],
      reloaded = []\<rparr>"
        "\<lparr>entry_id = 1, unique_id = Some ''11'', title = ''Jan Kowalski'',
                   data = \<lparr>student_id = ''11'', credential = 5\<rparr>\<rparr>"
        "\<lparr>create_new = (0::nat), register_by_token = (\<lambda>c t p s. Inr ()),
      get_accounts = (\<lambda>c. Inr [mk_account 11 ''Jan'' None ''Kowalski'']),
      model_dump = (\<lambda>c. c), model_validate = Inr\<rparr>" 5
        "[mk_account 11 ''Jan'' None ''Kowalski'']"
        "\<lparr>flow_credential = None, flow_students = None, flow_unique_id = None\<rparr>"]
    by (simp add: get_students_def mk_account_def s)
qed

section \<open>One profile or several\<close>

text \<open>Looking a student up in the dictionary of \<^verbatim>\<open>async_step_select_student\<close>.\<close>


lemma find_snoc:
  "find Q (xs @ [y]) = (case find Q xs of Some x \<Rightarrow> Some x | None \<Rightarrow> if Q y then Some y else None)"
  by (induction xs) auto

lemma map_of_fold_update:
  "map_of (fold (\<lambda>s d. AList.update (k s) (v s) d) ss d0) x =
     (case find (\<lambda>s. k s = x) (rev ss) of Some s \<Rightarrow> Some (v s) | None \<Rightarrow> map_of d0 x)"
proof (induction ss arbitrary: d0)
  case Nil
  then show ?case by simp
next
  case (Cons s ss)
  show ?case
    by (simp add: Cons.IH find_snoc update_conv' split: option.splits)
qed

lemma find_distinct_key:
  "distinct (map k ss) \<Longrightarrow> P \<in> set ss \<Longrightarrow> find (\<lambda>s. k s = k P) ss = Some P"
  by (induction ss) (auto simp: image_iff)

lemma distinct_str_ids:
  "distinct (map (\<lambda>s. pupil_id (pupil s)) ss) \<Longrightarrow>
   distinct (map (\<lambda>s. str_int (pupil_id (pupil s))) ss)"
  by (auto simp: distinct_map inj_on_def dest: str_int_inj)

text \<open>
  C3 (as stated, refuted): a directory result with exactly one profile is said always to
  end in a created entry. Every place that creates an entry first calls
  \<^verbatim>\<open>_abort_if_unique_id_configured\<close>: when an entry with the profile's id exists, as it can in
  \<^verbatim>\<open>async_step_auth\<close> and \<^verbatim>\<open>async_step_select_saved_credentials\<close>, which do not filter, the
  flow aborts with \<^verbatim>\<open>already_configured\<close>.
\<close>


theorem single_profile_already_configured_counterexample:
  "async_step_auth
     \<lparr>create_new = (7::nat), register_by_token = (\<lambda>c t p s. Inr ()),
      get_accounts = (\<lambda>c. Inr [mk_account 11 ''Jan'' None ''Kowalski'']),
      model_dump = (\<lambda>c. c), model_validate = Inr\<rparr>
     \<lparr>entries = [\<lparr>entry_id = 1, unique_id = Some ''11'', title = ''Jan Kowalski'',
                   data = \<lparr>student_id = ''11'', credential = 5\<rparr>\<rparr>],
      reloaded = []\<rparr>
     \<lparr>flow_credential = None, flow_students = None, flow_unique_id = None\<rparr>
     (Some \<lparr>CONF_TOKEN = ''3S1GFG0'', CONF_REGION = ''powiat'', CONF_PIN = ''123456''\<rparr>) None
   = Inr (Abort ''already_configured'',
          \<lparr>entries = [\<lparr>entry_id = 1, unique_id = Some ''11'', title = ''Jan Kowalski'',
                   data = \<lparr>student_id = ''11'', credential = 5\<rparr>\<rparr>],
            reloaded = []\<rparr>,
          \<lparr>flow_credential = None, flow_students = None, flow_unique_id = Some ''11''\<rparr>)"
proof -
  have s: "str_int 11 = ''11''" by code_simp
  show ?thesis
    by (simp add: async_step_auth_def register_and_get_students_def register_def get_students_def
        mk_account_def s abort_or_create_def unique_id_configured_def async_set_unique_id_def)
qed

text \<open>
  C3 (amended): for a directory result with exactly one profile \<open>P\<close> (in
  \<^verbatim>\<open>async_step_add_next_config_entry\<close>: exactly one profile left by the filter), each of
  \<^verbatim>\<open>auth\<close>, \<^verbatim>\<open>select_saved_credentials\<close> and \<^verbatim>\<open>add_next_config_entry\<close> ends at once, never
  showing the form \<^verbatim>\<open>select_student\<close>: when no entry has the id of \<open>P\<close> as its unique id, an
  entry is created whose title is the formatted name of \<open>P\<close> and whose data hold the id of
  \<open>P\<close> and the credential; when one has, the flow aborts with \<^verbatim>\<open>already_configured\<close> and the
  store is unchanged. In \<^verbatim>\<open>add_next_config_entry\<close>, when the stored entry's unique id is its
  \<^verbatim>\<open>student_id\<close>, the filter leaves only the first case.
\<close>


theorem single_profile_finalizes:
  assumes "sid = str_int (pupil_id (pupil P))"
    and "X = (if \<exists>entry \<in> set (entries hass). unique_id entry = Some sid
              then Inr (Abort ''already_configured'', hass, flow\<lparr>flow_unique_id := Some sid\<rparr>)
              else Inr (CreateEntry (format_student_name P)
                          \<lparr>student_id = sid, credential = model_dump env cred\<rparr>,
                        hass\<lparr>entries := entries hass @
                          [\<lparr>entry_id = fresh_entry_id (entries hass), unique_id = Some sid,
                            title = format_student_name P,
                            data = \<lparr>student_id = sid, credential = model_dump env cred\<rparr>\<rparr>]\<rparr>,
                        flow\<lparr>flow_unique_id := Some sid\<rparr>))"
  shows "(register_and_get_students env ui = Inr (cred, [P]) \<longrightarrow>
            async_step_auth env hass flow (Some ui) errors = X)
       \<and> (async_get_entry hass eid = Some entry
            \<and> model_validate env (credential (data entry)) = Inr cred
            \<and> get_students env cred = Inr [P] \<longrightarrow>
            async_step_select_saved_credentials env hass flow (Some eid) errors = X)
       \<and> (entries hass = [entry0]
            \<and> model_validate env (credential (data entry0)) = Inr cred
            \<and> get_students env cred = Inr students
            \<and> filter (\<lambda>student. str_int (pupil_id (pupil student))
                        \<notin> set (map (\<lambda>entry. student_id (data entry)) (entries hass))) students = [P] \<longrightarrow>
            async_step_add_next_config_entry env hass flow (Some True) = X
            \<and> (unique_id entry0 = Some (student_id (data entry0)) \<longrightarrow>
                 \<not> (\<exists>entry \<in> set (entries hass). unique_id entry = Some sid)))
       \<and> X \<noteq> Inr (ShowForm form_id form_schema form_errors, hass2, flow2)"
proof -
  have n: "X \<noteq> Inr (ShowForm form_id form_schema form_errors, hass2, flow2)"
    using assms(2) by simp
  have a: "register_and_get_students env ui = Inr (cred, [P]) \<longrightarrow>
            async_step_auth env hass flow (Some ui) errors = X"
    using assms
    by (simp add: async_step_auth_def abort_or_create_def unique_id_configured_def
        async_set_unique_id_def async_create_entry_def)
  have b: "async_get_entry hass eid = Some entry
            \<and> model_validate env (credential (data entry)) = Inr cred
            \<and> get_students env cred = Inr [P] \<longrightarrow>
            async_step_select_saved_credentials env hass flow (Some eid) errors = X"
    using assms
    by (simp add: abort_or_create_def unique_id_configured_def
        async_set_unique_id_def async_create_entry_def)
  have c: "entries hass = [entry0]
            \<and> model_validate env (credential (data entry0)) = Inr cred
            \<and> get_students env cred = Inr students
            \<and> filter (\<lambda>student. str_int (pupil_id (pupil student))
                        \<notin> set (map (\<lambda>entry. student_id (data entry)) (entries hass))) students = [P] \<longrightarrow>
            async_step_add_next_config_entry env hass flow (Some True) = X
            \<and> (unique_id entry0 = Some (student_id (data entry0)) \<longrightarrow>
                 \<not> (\<exists>entry \<in> set (entries hass). unique_id entry = Some sid))"
  proof (intro impI, elim conjE)
    assume e: "entries hass = [entry0]"
      and v: "model_validate env (credential (data entry0)) = Inr cred"
      and g: "get_students env cred = Inr students"
      and f: "filter (\<lambda>student. str_int (pupil_id (pupil student))
                        \<notin> set (map (\<lambda>entry. student_id (data entry)) (entries hass))) students = [P]"
    have "P \<in> set (filter (\<lambda>student. str_int (pupil_id (pupil student))
                        \<notin> set (map (\<lambda>entry. student_id (data entry)) (entries hass))) students)"
      using f by simp
    then have n: "sid \<noteq> student_id (data entry0)"
      using e assms(1) by simp
    have f': "filter (\<lambda>student. str_int (pupil_id (pupil student)) \<noteq> student_id (data entry0)) students = [P]"
      using f e by simp
    have "async_step_add_next_config_entry env hass flow (Some True) = X"
      using assms e v g f'
      by (simp add: async_step_add_next_config_entry_def abort_or_create_def
          unique_id_configured_def async_set_unique_id_def async_create_entry_def)
    then show "async_step_add_next_config_entry env hass flow (Some True) = X
            \<and> (unique_id entry0 = Some (student_id (data entry0)) \<longrightarrow>
                 \<not> (\<exists>entry \<in> set (entries hass). unique_id entry = Some sid))"
      using n e by auto
  qed
  show ?thesis using a b c n by blast
qed

theorem single_profile_finalizes_witness:
  "async_step_auth
     \<lparr>create_new = (7::nat), register_by_token = (\<lambda>c t p s. Inr ()),
      get_accounts = (\<lambda>c. Inr [mk_account 12 ''Ewa'' (Some ''Maria'') ''Kowalska'']),
      model_dump = (\<lambda>c. c), model_validate = Inr\<rparr>
     \<lparr>entries = [\<lparr>entry_id = 1, unique_id = Some ''11'', title = ''Jan Kowalski'',
                   data = \<lparr>student_id = ''11'', credential = 5\<rparr>\<rparr>],
      reloaded = []\<rparr>
     \<lparr>flow_credential = None, flow_students = None, flow_unique_id = None\<rparr>
     (Some \<lparr>CONF_TOKEN = ''3S1GFG0'', CONF_REGION = ''powiat'', CONF_PIN = ''123456''\<rparr>) None
   = Inr (CreateEntry ''Ewa Maria Kowalska'' \<lparr>student_id = ''12'', credential = 7\<rparr>,
          \<lparr>entries = [\<lparr>entry_id = 1, unique_id = Some ''11'', title = ''Jan Kowalski'',
                   data = \<lparr>student_id = ''11'', credential = 5\<rparr>\<rparr>,
                 \<lparr>entry_id = 2, unique_id = Some ''12'', title = ''Ewa Maria Kowalska'',
                   data = \<lparr>student_id = ''12'', credential = 7\<rparr>\<rparr>],
            reloaded = []\<rparr>,
          \<lparr>flow_credential = None, flow_students = None, flow_unique_id = Some ''12''\<rparr>)
   \<and> async_step_add_next_config_entry
     \<lparr>create_new = (7::nat), register_by_token = (\<lambda>c t p s. Inr ()),
      get_accounts = (\<lambda>c. Inr [mk_account 11 ''Jan'' None ''Kowalski'',
                               mk_account 12 ''Ewa'' (Some ''Maria'') ''Kowalska'']),
      model_dump = (\<lambda>c. c), model_validate = Inr\<rparr>
     \<lparr>entries = [\<lparr>entry_id = 1, unique_id = Some ''11'', title = ''Jan Kowalski'',
                   data = \<lparr>student_id = ''11'', credential = 5\<rparr>\<rparr>],
      reloaded = []\<rparr>
     \<lparr>flow_credential = None, flow_students = None, flow_unique_id = None\<rparr>
     (Some True)
   = Inr (CreateEntry ''Ewa Maria Kowalska'' \<lparr>student_id = ''12'', credential = 5\<rparr>,
          \<lparr>entries = [\<lparr>entry_id = 1, unique_id = Some ''11'', title = ''Jan Kowalski'',
                   data = \<lparr>student_id = ''11'', credential = 5\<rparr>\<rparr>,
                 \<lparr>entry_id = 2, unique_id = Some ''12'', title = ''Ewa Maria Kowalska'',
                   data = \<lparr>student_id = ''12'', credential = 5\<rparr>\<rparr>],
            reloaded = []\<rparr>,
          \<lparr>flow_credential = None, flow_students = None, flow_unique_id = Some ''12''\<rparr>)"
proof -
  have s1: "str_int 11 = ''11''" by code_simp
  have s2: "str_int 12 = ''12''" by code_simp
  have f: "format_student_name (mk_account 12 ''Ewa'' (Some ''Maria'') ''Kowalska'')
             = ''Ewa Maria Kowalska''"
    by (simp add: format_student_name_def mk_account_def)
  have p: "pupil_id (pupil (mk_account 12 ''Ewa'' (Some ''Maria'') ''Kowalska'')) = 12"
    "pupil_id (pupil (mk_account 11 ''Jan'' None ''Kowalski'')) = 11"
    by (simp_all add: mk_account_def)
  note t1 = single_profile_finalizes [OF refl refl,
      where P = "mk_account 12 ''Ewa'' (Some ''Maria'') ''Kowalska''"
        and hass = "\<lparr>entries = [\<lparr>entry_id = 1, unique_id = Some ''11'', title = ''Jan Kowalski'',
                   data = \<lparr>student_id = ''11'', credential = 5\<rparr>\<rparr>], reloaded = []\<rparr>"
        and flow = "\<lparr>flow_credential = None, flow_students = None, flow_unique_id = None\<rparr>"
        and env = "\<lparr>create_new = (7::nat), register_by_token = (\<lambda>c t p s. Inr ()),
      get_accounts = (\<lambda>c. Inr [mk_account 12 ''Ewa'' (Some ''Maria'') ''Kowalska'']),
      model_dump = (\<lambda>c. c), model_validate = Inr\<rparr>"
        and cred = 7
        and ui = "\<lparr>CONF_TOKEN = ''3S1GFG0'', CONF_REGION = ''powiat'', CONF_PIN = ''123456''\<rparr>"
        and errors = None]
  note t2 = single_profile_finalizes [OF refl refl,
      where P = "mk_account 12 ''Ewa'' (Some ''Maria'') ''Kowalska''"
        and hass = "\<lparr>entries = [\<lparr>entry_id = 1, unique_id = Some ''11'', title = ''Jan Kowalski'',
                   data = \<lparr>student_id = ''11'', credential = 5\<rparr>\<rparr>], reloaded = []\<rparr>"
        and flow = "\<lparr>flow_credential = None, flow_students = None, flow_unique_id = None\<rparr>"
        and env = "\<lparr>create_new = (7::nat), register_by_token = (\<lambda>c t p s. Inr ()),
      get_accounts = (\<lambda>c. Inr [mk_account 11 ''Jan'' None ''Kowalski'',
                               mk_account 12 ''Ewa'' (Some ''Maria'') ''Kowalska'']),
      model_dump = (\<lambda>c. c), model_validate = Inr\<rparr>"
        and cred = 5
        and ?entry0.0 = "\<lparr>entry_id = 1, unique_id = Some ''11'', title = ''Jan Kowalski'',
                   data = \<lparr>student_id = ''11'', credential = 5\<rparr>\<rparr>"
        and students = "[mk_account 11 ''Jan'' None ''Kowalski'',
                               mk_account 12 ''Ewa'' (Some ''Maria'') ''Kowalska'']"]
  show ?thesis
    using t1 t2
    by (simp add: register_and_get_students_def register_def get_students_def
        s1 s2 f p fresh_entry_id_def)
qed

text \<open>
  C4 (as stated, refuted): submitting the id of any listed profile at \<^verbatim>\<open>select_student\<close> is
  said to create an entry. \<^verbatim>\<open>async_step_select_student\<close> calls
  \<^verbatim>\<open>_abort_if_unique_id_configured\<close> first: a listed profile that already has an entry (the
  list stashed by \<^verbatim>\<open>async_step_auth\<close> is not filtered) aborts the flow with
  \<^verbatim>\<open>already_configured\<close>.
\<close>


theorem several_profiles_already_configured_counterexample:
  "async_step_auth
     \<lparr>create_new = (7::nat), register_by_token = (\<lambda>c t p s. Inr ()),
      get_accounts = (\<lambda>c. Inr [mk_account 11 ''Jan'' None ''Kowalski'',
                               mk_account 12 ''Ewa'' (Some ''Maria'') ''Kowalska'']),
      model_dump = (\<lambda>c. c), model_validate = Inr\<rparr>
     \<lparr>entries = [\<lparr>entry_id = 1, unique_id = Some ''11'', title = ''Jan Kowalski'',
                   data = \<lparr>student_id = ''11'', credential = 5\<rparr>\<rparr>],
      reloaded = []\<rparr>
     \<lparr>flow_credential = None, flow_students = None, flow_unique_id = None\<rparr>
     (Some \<lparr>CONF_TOKEN = ''3S1GFG0'', CONF_REGION = ''powiat'', CONF_PIN = ''123456''\<rparr>) None
   = Inr (ShowForm ''select_student''
            (StudentSchema [(''11'', ''Jan Kowalski''), (''12'', ''Ewa Maria Kowalska'')]) (Some []),
          \<lparr>entries = [\<lparr>entry_id = 1, unique_id = Some ''11'', title = ''Jan Kowalski'',
                   data = \<lparr>student_id = ''11'', credential = 5\<rparr>\<rparr>],
            reloaded = []\<rparr>,
          \<lparr>flow_credential = Some 7,
           flow_students = Some [mk_account 11 ''Jan'' None ''Kowalski'',
                                 mk_account 12 ''Ewa'' (Some ''Maria'') ''Kowalska''],
           flow_unique_id = None\<rparr>)
   \<and> async_step_select_student
     \<lparr>create_new = (7::nat), register_by_token = (\<lambda>c t p s. Inr ()),
      get_accounts = (\<lambda>c. Inr [mk_account 11 ''Jan'' None ''Kowalski'',
                               mk_account 12 ''Ewa'' (Some ''Maria'') ''Kowalska'']),
      model_dump = (\<lambda>c. c), model_validate = Inr\<rparr>
     \<lparr>entries = [\<lparr>entry_id = 1, unique_id = Some ''11'', title = ''Jan Kowalski'',
                   data = \<lparr>student_id = ''11'', credential = 5\<rparr>\<rparr>],
      reloaded = []\<rparr>
     \<lparr>flow_credential = Some 7,
      flow_students = Some [mk_account 11 ''Jan'' None ''Kowalski'',
                            mk_account 12 ''Ewa'' (Some ''Maria'') ''Kowalska''],
      flow_unique_id = None\<rparr>
     (Some ''11'')
   = Inr (Abort ''already_configured'',
          \<lparr>entries = [\<lparr>entry_id = 1, unique_id = Some ''11'', title = ''Jan Kowalski'',
                   data = \<lparr>student_id = ''11'', credential = 5\<rparr>\<rparr>],
            reloaded = []\<rparr>,
          \<lparr>flow_credential = Some 7,
           flow_students = Some [mk_account 11 ''Jan'' None ''Kowalski'',
                                 mk_account 12 ''Ewa'' (Some ''Maria'') ''Kowalska''],
           flow_unique_id = Some ''11''\<rparr>)"
proof -
  have s1: "str_int 11 = ''11''" by code_simp
  have s2: "str_int 12 = ''12''" by code_simp
  have p: "pupil_id (pupil (mk_account 12 ''Ewa'' (Some ''Maria'') ''Kowalska'')) = 12"
    "pupil_id (pupil (mk_account 11 ''Jan'' None ''Kowalski'')) = 11"
    by (simp_all add: mk_account_def)
  have f: "format_student_name (mk_account 12 ''Ewa'' (Some ''Maria'') ''Kowalska'')
             = ''Ewa Maria Kowalska''"
    "format_student_name (mk_account 11 ''Jan'' None ''Kowalski'') = ''Jan Kowalski''"
    by (simp_all add: format_student_name_def mk_account_def)
  show ?thesis
    by (simp add: async_step_auth_def register_and_get_students_def register_def get_students_def
        async_step_select_student_def students_dict_def s1 s2 p f
        unique_id_configured_def async_set_unique_id_def)
qed

text \<open>
  C4 (amended): for more than one profile (in \<^verbatim>\<open>async_step_add_next_config_entry\<close>: left by
  the filter), each of \<^verbatim>\<open>auth\<close>, \<^verbatim>\<open>select_saved_credentials\<close> and \<^verbatim>\<open>add_next_config_entry\<close>
  stores the credential and the profiles in the session and shows the form
  \<^verbatim>\<open>select_student\<close>, which offers each id with a formatted name. Submitting a listed id
  then finalizes with the profile \<open>P\<close> listed last under that id, which is the profile
  itself when the ids are pairwise different: an entry is created with the formatted name
  of \<open>P\<close> as title and the id and the stashed credential as data when no entry has that id
  as its unique id, and the flow aborts with \<^verbatim>\<open>already_configured\<close>, the store unchanged, when
  one has.
\<close>

theorem several_profiles_select_student:
  assumes "length students > 1"
    and "find (\<lambda>student. str_int (pupil_id (pupil student)) = sid) (rev students) = Some P"
    and "stash = flow\<lparr>flow_credential := Some cred, flow_students := Some students\<rparr>"
    and "form = Inr (ShowForm ''select_student'' (StudentSchema (students_dict (Some students)))
                       (Some []), hass, stash)"
  shows "(register_and_get_students env ui = Inr (cred, students) \<longrightarrow>
            async_step_auth env hass flow (Some ui) errors = form)
       \<and> (async_get_entry hass eid = Some entry
            \<and> model_validate env (credential (data entry)) = Inr cred
            \<and> get_students env cred = Inr students \<longrightarrow>
            async_step_select_saved_credentials env hass flow (Some eid) errors = form)
       \<and> (entries hass = [entry0]
            \<and> model_validate env (credential (data entry0)) = Inr cred
            \<and> get_students env cred = Inr directory
            \<and> filter (\<lambda>student. str_int (pupil_id (pupil student))
                        \<notin> set (map (\<lambda>entry. student_id (data entry)) (entries hass))) directory
                = students \<longrightarrow>
            async_step_add_next_config_entry env hass flow (Some True) = form)
       \<and> map_of (students_dict (Some students)) sid = Some (format_student_name P)
       \<and> async_step_select_student env hass' stash (Some sid) =
           (if \<exists>entry \<in> set (entries hass'). unique_id entry = Some sid
            then Inr (Abort ''already_configured'', hass', stash\<lparr>flow_unique_id := Some sid\<rparr>)
            else Inr (CreateEntry (format_student_name P)
                        \<lparr>student_id = sid, credential = model_dump env cred\<rparr>,
                      hass'\<lparr>entries := entries hass' @
                        [\<lparr>entry_id = fresh_entry_id (entries hass'), unique_id = Some sid,
                          title = format_student_name P,
                          data = \<lparr>student_id = sid, credential = model_dump env cred\<rparr>\<rparr>]\<rparr>,
                      stash\<lparr>flow_unique_id := Some sid\<rparr>))
       \<and> (distinct (map (\<lambda>student. pupil_id (pupil student)) students) \<longrightarrow>
            (\<forall>Q \<in> set students.
               find (\<lambda>student. str_int (pupil_id (pupil student)) = str_int (pupil_id (pupil Q)))
                 (rev students) = Some Q))"
proof -
  have n1: "length students \<noteq> Suc 0" and n0: "students \<noteq> []"
    using assms(1) by auto
  have a: "register_and_get_students env ui = Inr (cred, students) \<longrightarrow>
            async_step_auth env hass flow (Some ui) errors = form"
    using assms(1,3,4) by (simp add: async_step_auth_def async_step_select_student_def)
  have b: "async_get_entry hass eid = Some entry
            \<and> model_validate env (credential (data entry)) = Inr cred
            \<and> get_students env cred = Inr students \<longrightarrow>
            async_step_select_saved_credentials env hass flow (Some eid) errors = form"
    using n1 assms(3,4) by (simp add: async_step_select_student_def)
  have c: "entries hass = [entry0]
            \<and> model_validate env (credential (data entry0)) = Inr cred
            \<and> get_students env cred = Inr directory
            \<and> filter (\<lambda>student. str_int (pupil_id (pupil student))
                        \<notin> set (map (\<lambda>entry. student_id (data entry)) (entries hass))) directory
                = students \<longrightarrow>
            async_step_add_next_config_entry env hass flow (Some True) = form"
    using n1 n0 assms(3,4)
    by (auto simp add: async_step_add_next_config_entry_def async_step_select_student_def Let_def)
  have d: "map_of (students_dict (Some students)) sid = Some (format_student_name P)"
    using assms(2) by (simp add: students_dict_def map_of_fold_update)
  have e: "async_step_select_student env hass' stash (Some sid) =
           (if \<exists>entry \<in> set (entries hass'). unique_id entry = Some sid
            then Inr (Abort ''already_configured'', hass', stash\<lparr>flow_unique_id := Some sid\<rparr>)
            else Inr (CreateEntry (format_student_name P)
                        \<lparr>student_id = sid, credential = model_dump env cred\<rparr>,
                      hass'\<lparr>entries := entries hass' @
                        [\<lparr>entry_id = fresh_entry_id (entries hass'), unique_id = Some sid,
                          title = format_student_name P,
                          data = \<lparr>student_id = sid, credential = model_dump env cred\<rparr>\<rparr>]\<rparr>,
                      stash\<lparr>flow_unique_id := Some sid\<rparr>))"
    using d assms(3)
    by (simp add: async_step_select_student_def unique_id_configured_def
        async_set_unique_id_def async_create_entry_def)
  have g: "distinct (map (\<lambda>student. pupil_id (pupil student)) students) \<longrightarrow>
            (\<forall>Q \<in> set students.
               find (\<lambda>student. str_int (pupil_id (pupil student)) = str_int (pupil_id (pupil Q)))
                 (rev students) = Some Q)"
  proof (intro impI ballI)
    fix Q
    assume h: "distinct (map (\<lambda>student. pupil_id (pupil student)) students)"
      and q: "Q \<in> set students"
    have "distinct (map (\<lambda>s. str_int (pupil_id (pupil s))) (rev students))"
      using distinct_str_ids[OF h] by (simp add: rev_map[symmetric])
    then show "find (\<lambda>student. str_int (pupil_id (pupil student)) = str_int (pupil_id (pupil Q)))
                 (rev students) = Some Q"
      using q find_distinct_key[of "\<lambda>s. str_int (pupil_id (pupil s))" "rev students" Q] by simp
  qed
  show ?thesis using a b c d e g by blast
qed

theorem several_profiles_select_student_witness:
  "async_step_auth
     \<lparr>create_new = (7::nat), register_by_token = (\<lambda>c t p s. Inr ()),
      get_accounts = (\<lambda>c. Inr [mk_account 11 ''Jan'' None ''Kowalski'',
                               mk_account 12 ''Ewa'' (Some ''Maria'') ''Kowalska'']),
      model_dump = (\<lambda>c. c), model_validate = Inr\<rparr>
     \<lparr>entries = [\<lparr>entry_id = 1, unique_id = Some ''11'', title = ''Jan Kowalski'',
                   data = \<lparr>student_id = ''11'', credential = 5\<rparr>\<rparr>],
      reloaded = []\<rparr>
     \<lparr>flow_credential = None, flow_students = None, flow_unique_id = None\<rparr>
     (Some \<lparr>CONF_TOKEN = ''3S1GFG0'', CONF_REGION = ''powiat'', CONF_PIN = ''123456''\<rparr>) None
   = Inr (ShowForm ''select_student''
            (StudentSchema [(''11'', ''Jan Kowalski''), (''12'', ''Ewa Maria Kowalska'')]) (Some []),
          \<lparr>entries = [\<lparr>entry_id = 1, unique_id = Some ''11'', title = ''Jan Kowalski'',
                   data = \<lparr>student_id = ''11'', credential = 5\<rparr>\<rparr>],
            reloaded = []\<rparr>,
          \<lparr>flow_credential = Some 7,
           flow_students = Some [mk_account 11 ''Jan'' None ''Kowalski'',
                                 mk_account 12 ''Ewa'' (Some ''Maria'') ''Kowalska''],
           flow_unique_id = None\<rparr>)
   \<and> async_step_select_student
     \<lparr>create_new = (7::nat), register_by_token = (\<lambda>c t p s. Inr ()),
      get_accounts = (\<lambda>c. Inr [mk_account 11 ''Jan'' None ''Kowalski'',
                               mk_account 12 ''Ewa'' (Some ''Maria'') ''Kowalska'']),
      model_dump = (\<lambda>c. c), model_validate = Inr\<rparr>
     \<lparr>entries = [\<lparr>entry_id = 1, unique_id = Some ''11'', title = ''Jan Kowalski'',
                   data = \<lparr>student_id = ''11'', credential = 5\<rparr>\<rparr>],
      reloaded = []\<rparr>
     \<lparr>flow_credential = Some 7,
      flow_students = Some [mk_account 11 ''Jan'' None ''Kowalski'',
                            mk_account 12 ''Ewa'' (Some ''Maria'') ''Kowalska''],
      flow_unique_id = None\<rparr>
     (Some ''12'')
   = Inr (CreateEntry ''Ewa Maria Kowalska'' \<lparr>student_id = ''12'', credential = 7\<rparr>,
          \<lparr>entries = [\<lparr>entry_id = 1, unique_id = Some ''11'', title = ''Jan Kowalski'',
                   data = \<lparr>student_id = ''11'', credential = 5\<rparr>\<rparr>,
                 \<lparr>entry_id = 2, unique_id = Some ''12'', title = ''Ewa Maria Kowalska'',
                   data = \<lparr>student_id = ''12'', credential = 7\<rparr>\<rparr>],
            reloaded = []\<rparr>,
          \<lparr>flow_credential = Some 7,
           flow_students = Some [mk_account 11 ''Jan'' None ''Kowalski'',
                                 mk_account 12 ''Ewa'' (Some ''Maria'') ''Kowalska''],
           flow_unique_id = Some ''12''\<rparr>)"
proof -
  have s1: "str_int 11 = ''11''" by code_simp
  have s2: "str_int 12 = ''12''" by code_simp
  have p: "pupil_id (pupil (mk_account 12 ''Ewa'' (Some ''Maria'') ''Kowalska'')) = 12"
    "pupil_id (pupil (mk_account 11 ''Jan'' None ''Kowalski'')) = 11"
    by (simp_all add: mk_account_def)
  have f: "format_student_name (mk_account 12 ''Ewa'' (Some ''Maria'') ''Kowalska'')
             = ''Ewa Maria Kowalska''"
    "format_student_name (mk_account 11 ''Jan'' None ''Kowalski'') = ''Jan Kowalski''"
    by (simp_all add: format_student_name_def mk_account_def)
  have h1: "length [mk_account 11 ''Jan'' None ''Kowalski'',
                    mk_account 12 ''Ewa'' (Some ''Maria'') ''Kowalska''] > 1"
    by simp
  have h2: "find (\<lambda>student. str_int (pupil_id (pupil student)) = ''12'')
              (rev [mk_account 11 ''Jan'' None ''Kowalski'',
                    mk_account 12 ''Ewa'' (Some ''Maria'') ''Kowalska''])
            = Some (mk_account 12 ''Ewa'' (Some ''Maria'') ''Kowalska'')"
    by (simp add: p s2)
  note t = several_profiles_select_student [OF h1 h2 refl refl,
      where hass = "\<lparr>entries = [\<lparr>entry_id = 1, unique_id = Some ''11'', title = ''Jan Kowalski'',
                   data = \<lparr>student_id = ''11'', credential = 5\<rparr>\<rparr>], reloaded = []\<rparr>"
        and hass' = "\<lparr>entries = [\<lparr>entry_id = 1, unique_id = Some ''11'', title = ''Jan Kowalski'',
                   data = \<lparr>student_id = ''11'', credential = 5\<rparr>\<rparr>], reloaded = []\<rparr>"
        and flow = "\<lparr>flow_credential = None, flow_students = None, flow_unique_id = None\<rparr>"
        and env = "\<lparr>create_new = (7::nat), register_by_token = (\<lambda>c t p s. Inr ()),
      get_accounts = (\<lambda>c. Inr [mk_account 11 ''Jan'' None ''Kowalski'',
                               mk_account 12 ''Ewa'' (Some ''Maria'') ''Kowalska'']),
      model_dump = (\<lambda>c. c), model_validate = Inr\<rparr>"
        and cred = 7
        and ui = "\<lparr>CONF_TOKEN = ''3S1GFG0'', CONF_REGION = ''powiat'', CONF_PIN = ''123456''\<rparr>"
        and errors = None]
  show ?thesis
    using t
    by (simp add: register_and_get_students_def register_def get_students_def
        students_dict_def s1 s2 f p fresh_entry_id_def)
qed

section \<open>The entry store under the onboarding steps\<close>


lemma select_student_store:
  "async_step_select_student env hass flow user_input = Inr (r, hass', flow') \<Longrightarrow>
   store_effect hass r hass'"
  by (auto simp: async_step_select_student_def async_create_entry_def unique_id_configured_def
      async_set_unique_id_def store_effect_def Let_def split: if_splits option.splits)

lemma finalize_store:
  "abort_or_create hass (async_set_unique_id flow sid) t \<lparr>student_id = sid, credential = c\<rparr>
     = (r, hass', flow') \<Longrightarrow> store_effect hass r hass'"
  by (auto simp: abort_or_create_def async_create_entry_def unique_id_configured_def
      async_set_unique_id_def store_effect_def split: if_splits)

lemma show_form_store: "store_effect hass (ShowForm a b c) hass"
  by (simp add: store_effect_def)

lemma abort_store: "store_effect hass (Abort a) hass"
  by (simp add: store_effect_def)

lemma auth_store:
  "async_step_auth env hass flow user_input errors = Inr (r, hass', flow') \<Longrightarrow>
   store_effect hass r hass'"
  by (auto simp: async_step_auth_def show_form_store
      split: option.splits sum.splits if_splits list.splits
      dest: select_student_store finalize_store)

lemma select_saved_credentials_store:
  "async_step_select_saved_credentials env hass flow user_input errors = Inr (r, hass', flow') \<Longrightarrow>
   store_effect hass r hass'"
proof (cases user_input)
  case None
  assume "async_step_select_saved_credentials env hass flow user_input errors = Inr (r, hass', flow')"
  then show ?thesis using None by (auto simp: show_form_store)
next
  case (Some eid)
  assume "async_step_select_saved_credentials env hass flow user_input errors = Inr (r, hass', flow')"
  then show ?thesis using Some
    by (auto simp: show_form_store Let_def
        split: option.splits sum.splits if_splits
        dest: select_student_store finalize_store auth_store)
qed

lemma add_next_config_entry_store:
  "async_step_add_next_config_entry env hass flow user_input = Inr (r, hass', flow') \<Longrightarrow>
   store_effect hass r hass'"
  by (auto simp: async_step_add_next_config_entry_def show_form_store abort_store Let_def
      split: option.splits sum.splits if_splits list.splits
      dest: select_student_store finalize_store auth_store select_saved_credentials_store)

lemma user_store:
  "async_step_user env hass flow = Inr (r, hass', flow') \<Longrightarrow> store_effect hass r hass'"
  by (auto simp: async_step_user_def split: if_splits
      dest: add_next_config_entry_store auth_store)

text \<open>
  C5: one entry per student id. Whatever step of the onboarding flow runs
  (\<^verbatim>\<open>auth\<close>, \<^verbatim>\<open>select_student\<close>, \<^verbatim>\<open>select_saved_credentials\<close>, \<^verbatim>\<open>add_next_config_entry\<close>,
  \<^verbatim>\<open>user\<close>) and returns, an entry is created only under a unique id that no stored entry
  had, it is appended, and the stored entries are left as they were; every other result
  leaves the store untouched, so unique ids that were pairwise different stay so. Once an
  entry with a student id exists, creating an entry for that id again (the shared tail of
  \<^verbatim>\<open>auth\<close>, \<^verbatim>\<open>select_saved_credentials\<close> and \<^verbatim>\<open>add_next_config_entry\<close>, or
  \<^verbatim>\<open>select_student\<close>) aborts with \<^verbatim>\<open>already_configured\<close> and leaves the store unchanged.
  Only \<^verbatim>\<open>async_step_reauth_confirm\<close> changes a stored entry.
\<close>


theorem one_entry_per_student_id:
  assumes "outcome = async_step_auth env hass flow login_input errors
         \<or> outcome = async_step_select_student env hass flow student_input
         \<or> outcome = async_step_select_saved_credentials env hass flow entry_input errors
         \<or> outcome = async_step_add_next_config_entry env hass flow saved_input
         \<or> outcome = async_step_user env hass flow"
    and "outcome = Inr (r, hass', flow')"
  shows "store_effect hass r hass'
       \<and> (distinct (map unique_id (entries hass)) \<longrightarrow> distinct (map unique_id (entries hass')))
       \<and> (r = CreateEntry t d \<longrightarrow>
            (\<exists>entry \<in> set (entries hass'). unique_id entry = Some (student_id d)))
       \<and> ((\<exists>entry \<in> set (entries hass'). unique_id entry = Some sid) \<longrightarrow>
            abort_or_create hass' (async_set_unique_id flow2 sid) t2 d2 =
              (Abort ''already_configured'', hass', async_set_unique_id flow2 sid)
            \<and> async_step_select_student env2 hass' (flow2\<lparr>flow_credential := Some cred2\<rparr>) (Some sid) =
                Inr (Abort ''already_configured'', hass',
                     async_set_unique_id (flow2\<lparr>flow_credential := Some cred2\<rparr>) sid))"
proof -
  have s: "store_effect hass r hass'"
    using assms auth_store select_student_store select_saved_credentials_store
      add_next_config_entry_store user_store
    by metis
  have d: "distinct (map unique_id (entries hass)) \<longrightarrow> distinct (map unique_id (entries hass'))"
    using s by (cases r) (auto simp: store_effect_def)
  have c: "r = CreateEntry t d \<longrightarrow>
            (\<exists>entry \<in> set (entries hass'). unique_id entry = Some (student_id d))"
    using s by (auto simp: store_effect_def)
  have f: "(\<exists>entry \<in> set (entries hass'). unique_id entry = Some sid) \<longrightarrow>
            abort_or_create hass' (async_set_unique_id flow2 sid) t2 d2 =
              (Abort ''already_configured'', hass', async_set_unique_id flow2 sid)
            \<and> async_step_select_student env2 hass' (flow2\<lparr>flow_credential := Some cred2\<rparr>) (Some sid) =
                Inr (Abort ''already_configured'', hass',
                     async_set_unique_id (flow2\<lparr>flow_credential := Some cred2\<rparr>) sid)"
    by (auto simp: abort_or_create_def unique_id_configured_def async_set_unique_id_def
        async_step_select_student_def Let_def)
  show ?thesis using s d c f by blast
qed

theorem one_entry_per_student_id_witness:
  "store_effect
     \<lparr>entries = [\<lparr>entry_id = 1, unique_id = Some ''11'', title = ''Jan Kowalski'',
                   data = \<lparr>student_id = ''11'', credential = 5\<rparr>\<rparr>],
      reloaded = []\<rparr>
     (CreateEntry ''Ewa Maria Kowalska'' \<lparr>student_id = ''12'', credential = (7::nat)\<rparr>)
     \<lparr>entries = [\<lparr>entry_id = 1, unique_id = Some ''11'', title = ''Jan Kowalski'',
                   data = \<lparr>student_id = ''11'', credential = 5\<rparr>\<rparr>,
                 \<lparr>entry_id = 2, unique_id = Some ''12'', title = ''Ewa Maria Kowalska'',
                   data = \<lparr>student_id = ''12'', credential = 7\<rparr>\<rparr>],
      reloaded = []\<rparr>
   \<and> abort_or_create
     \<lparr>entries = [\<lparr>entry_id = 1, unique_id = Some ''11'', title = ''Jan Kowalski'',
                   data = \<lparr>student_id = ''11'', credential = 5\<rparr>\<rparr>,
                 \<lparr>entry_id = 2, unique_id = Some ''12'', title = ''Ewa Maria Kowalska'',
                   data = \<lparr>student_id = ''12'', credential = 7\<rparr>\<rparr>],
      reloaded = []\<rparr>
     (async_set_unique_id
        \<lparr>flow_credential = None, flow_students = None, flow_unique_id = None\<rparr> ''12'')
     ''Ewa Kowalska'' \<lparr>student_id = ''12'', credential = (8::nat)\<rparr>
   = (Abort ''already_configured'',
      \<lparr>entries = [\<lparr>entry_id = 1, unique_id = Some ''11'', title = ''Jan Kowalski'',
                   data = \<lparr>student_id = ''11'', credential = 5\<rparr>\<rparr>,
                 \<lparr>entry_id = 2, unique_id = Some ''12'', title = ''Ewa Maria Kowalska'',
                   data = \<lparr>student_id = ''12'', credential = 7\<rparr>\<rparr>],
        reloaded = []\<rparr>,
      \<lparr>flow_credential = (None :: nat option), flow_students = None,
       flow_unique_id = Some ''12''\<rparr>)"
proof -
  have s2: "str_int 12 = ''12''" by code_simp
  have f: "format_student_name (mk_account 12 ''Ewa'' (Some ''Maria'') ''Kowalska'')
             = ''Ewa Maria Kowalska''"
    by (simp add: format_student_name_def mk_account_def)
  have p: "pupil_id (pupil (mk_account 12 ''Ewa'' (Some ''Maria'') ''Kowalska'')) = 12"
    by (simp add: mk_account_def)
  have h: "async_step_auth
     \<lparr>create_new = (7::nat), register_by_token = (\<lambda>c t p s. Inr ()),
      get_accounts = (\<lambda>c. Inr [mk_account 12 ''Ewa'' (Some ''Maria'') ''Kowalska'']),
      model_dump = (\<lambda>c. c), model_validate = Inr\<rparr>
     \<lparr>entries = [\<lparr>entry_id = 1, unique_id = Some ''11'', title = ''Jan Kowalski'',
                   data = \<lparr>student_id = ''11'', credential = 5\<rparr>\<rparr>],
      reloaded = []\<rparr>
     \<lparr>flow_credential = None, flow_students = None, flow_unique_id = None\<rparr>
     (Some \<lparr>CONF_TOKEN = ''3S1GFG0'', CONF_REGION = ''powiat'', CONF_PIN = ''123456''\<rparr>) None
   = Inr (CreateEntry ''Ewa Maria Kowalska'' \<lparr>student_id = ''12'', credential = 7\<rparr>,
          \<lparr>entries = [\<lparr>entry_id = 1, unique_id = Some ''11'', title = ''Jan Kowalski'',
                   data = \<lparr>student_id = ''11'', credential = 5\<rparr>\<rparr>,
                 \<lparr>entry_id = 2, unique_id = Some ''12'', title = ''Ewa Maria Kowalska'',
                   data = \<lparr>student_id = ''12'', credential = 7\<rparr>\<rparr>],
            reloaded = []\<rparr>,
          \<lparr>flow_credential = None, flow_students = None, flow_unique_id = Some ''12''\<rparr>)"
    by (simp add: async_step_auth_def register_and_get_students_def register_def
        get_students_def abort_or_create_def unique_id_configured_def async_set_unique_id_def
        async_create_entry_def fresh_entry_id_def s2 f p)
  show ?thesis
    using one_entry_per_student_id [OF disjI1 [OF refl] h,
      where sid = "''12''"
        and ?flow2.0 = "\<lparr>flow_credential = None, flow_students = None, flow_unique_id = None\<rparr>"
        and ?t2.0 = "''Ewa Kowalska''"
        and ?d2.0 = "\<lparr>student_id = ''12'', credential = (8::nat)\<rparr>"
        and t = "''Ewa Maria Kowalska''"
        and d = "\<lparr>student_id = ''12'', credential = (7::nat)\<rparr>"
        and ?env2.0 = "\<lparr>create_new = (7::nat), register_by_token = (\<lambda>c t p s. Inr ()),
      get_accounts = (\<lambda>c. Inr [mk_account 12 ''Ewa'' (Some ''Maria'') ''Kowalska'']),
      model_dump = (\<lambda>c. c), model_validate = Inr\<rparr>"
        and ?cred2.0 = 8]
    by (simp add: async_set_unique_id_def)
qed

section \<open>Reauthentication: what the loops compute\<close>


lemma reauth_scan_eq:
  "reauth_scan student d es =
     (map (\<lambda>entry. if student_matches student entry
                    then async_update_entry entry (format_student_name student)
                           \<lparr>student_id = str_int (pupil_id (pupil student)), credential = d\<rparr>
                    else entry) es,
      map entry_id (filter (student_matches student) es),
      \<exists>entry \<in> set es. student_matches student entry)"
  by (induction es) auto

lemma student_matches_updated:
  "student_matches s entry \<Longrightarrow>
   student_matches s' (async_update_entry entry t
      \<lparr>student_id = str_int (pupil_id (pupil s)), credential = d\<rparr>) = student_matches s' entry"
  by (simp add: student_matches_def async_update_entry_def)

lemma async_update_entry_twice:
  "async_update_entry (async_update_entry entry t d) t' d' = async_update_entry entry t' d'"
  by (simp add: async_update_entry_def)

lemma bex_set_map: "(\<exists>y \<in> set (map f xs). Q y) = (\<exists>x \<in> set xs. Q (f x))"
  by simp

lemma reauth_students_eq:
  "reauth_students students d (hass, m) =
     (hass\<lparr>entries :=
         map (\<lambda>entry. case find (\<lambda>student. student_matches student entry) (rev students) of
                         None \<Rightarrow> entry
                       | Some student \<Rightarrow>
                           async_update_entry entry (format_student_name student)
                             \<lparr>student_id = str_int (pupil_id (pupil student)), credential = d\<rparr>)
           (entries hass),
       reloaded := reloaded hass @
         concat (map (\<lambda>student. map entry_id (filter (student_matches student) (entries hass)))
                   students)\<rparr>,
      m \<or> (\<exists>student \<in> set students. \<exists>entry \<in> set (entries hass). student_matches student entry))"
proof (induction students arbitrary: hass m)
  case Nil
  then show ?case by simp
next
  case (Cons s ss)
  let ?upd = "\<lambda>s entry. async_update_entry entry (format_student_name s)
                 \<lparr>student_id = str_int (pupil_id (pupil s)), credential = d\<rparr>"
  let ?step = "\<lambda>entry. if student_matches s entry then ?upd s entry else entry"
  let ?G = "\<lambda>ss entry. case find (\<lambda>student. student_matches student entry) (rev ss) of
                         None \<Rightarrow> entry | Some student \<Rightarrow> ?upd student entry"
  let ?ids = "\<lambda>es s'. map entry_id (filter (student_matches s') es)"
  define h1 where "h1 = hass\<lparr>entries := map ?step (entries hass),
                           reloaded := reloaded hass @ ?ids (entries hass) s\<rparr>"
  have e1: "entries h1 = map ?step (entries hass)"
    and r1: "reloaded h1 = reloaded hass @ ?ids (entries hass) s"
    by (simp_all add: h1_def)
  have m: "\<And>s' entry. student_matches s' (?step entry) = student_matches s' entry"
    by (simp add: student_matches_updated)
  have i: "\<And>entry. entry_id (?step entry) = entry_id entry"
    by (simp add: async_update_entry_def)
  have e: "map (?G ss) (entries h1) = map (?G (s # ss)) (entries hass)"
    unfolding e1 map_map comp_def m
    by (rule map_cong) (auto simp: find_snoc async_update_entry_twice split: option.splits)
  have f: "\<And>s'. ?ids (entries h1) s' = ?ids (entries hass) s'"
    unfolding e1 filter_map comp_def m map_map i ..
  have x: "\<And>s'. (\<exists>entry \<in> set (entries h1). student_matches s' entry)
            = (\<exists>entry \<in> set (entries hass). student_matches s' entry)"
    unfolding e1 by (simp only: bex_set_map m)
  have u: "\<And>A B. h1\<lparr>entries := A, reloaded := B\<rparr> = hass\<lparr>entries := A, reloaded := B\<rparr>"
    by (simp add: h1_def)
  have "reauth_students (s # ss) d (hass, m)
          = reauth_students ss d (h1, m \<or> (\<exists>entry \<in> set (entries hass). student_matches s entry))"
    by (simp add: reauth_scan_eq h1_def)
  also have "\<dots> = (h1\<lparr>entries := map (?G ss) (entries h1),
                        reloaded := reloaded h1 @ concat (map (?ids (entries h1)) ss)\<rparr>,
                    (m \<or> (\<exists>entry \<in> set (entries hass). student_matches s entry))
                     \<or> (\<exists>student \<in> set ss. \<exists>entry \<in> set (entries h1). student_matches student entry))"
    by (rule Cons.IH)
  also have "\<dots> = (hass\<lparr>entries := map (?G (s # ss)) (entries hass),
                        reloaded := reloaded hass @ concat (map (?ids (entries hass)) (s # ss))\<rparr>,
                    m \<or> (\<exists>student \<in> set (s # ss). \<exists>entry \<in> set (entries hass).
                            student_matches student entry))"
    unfolding e f x r1 u by auto
  finally show ?case .
qed

text \<open>
  C6: when registration and directory lookup of \<^verbatim>\<open>async_step_reauth_confirm\<close> succeed and no
  returned profile has the \<^verbatim>\<open>student_id\<close> of a stored entry, the step aborts with
  \<^verbatim>\<open>no_matching_entries\<close> and the store is unchanged. When some profile matches some entry,
  the step aborts with \<^verbatim>\<open>reauth_successful\<close>; every entry matched by a profile has its title
  replaced by the formatted name of that profile (the last one in the list, should several
  have the same id) and its data by that id and the new credential; every other entry is
  unchanged; and \<^verbatim>\<open>async_reload\<close> has been called for each matched entry, profile by profile.
\<close>


theorem reauth_confirm_updates_matching:
  assumes "register_and_get_students env ui = Inr (cred, students)"
  shows "(\<not> (\<exists>student \<in> set students. \<exists>entry \<in> set (entries hass).
               student_matches student entry) \<longrightarrow>
            async_step_reauth_confirm env hass flow (Some ui) =
              Inr (Abort ''no_matching_entries'', hass, flow))
       \<and> ((\<exists>student \<in> set students. \<exists>entry \<in> set (entries hass).
               student_matches student entry) \<longrightarrow>
            async_step_reauth_confirm env hass flow (Some ui) =
              Inr (Abort ''reauth_successful'',
                   hass\<lparr>entries :=
                      map (\<lambda>entry.
                             case find (\<lambda>student. student_matches student entry) (rev students) of
                               None \<Rightarrow> entry
                             | Some student \<Rightarrow>
                                 entry\<lparr>title := format_student_name student,
                                       data := \<lparr>student_id = str_int (pupil_id (pupil student)),
                                                credential = model_dump env cred\<rparr>\<rparr>)
                        (entries hass),
                     reloaded := reloaded hass @
                       concat (map (\<lambda>student.
                                      map entry_id
                                        (filter (student_matches student) (entries hass)))
                                 students)\<rparr>,
                   flow))"
proof -
  let ?G = "\<lambda>entry. case find (\<lambda>student. student_matches student entry) (rev students) of
                       None \<Rightarrow> entry
                     | Some student \<Rightarrow>
                         async_update_entry entry (format_student_name student)
                           \<lparr>student_id = str_int (pupil_id (pupil student)),
                            credential = model_dump env cred\<rparr>"
  let ?ids = "concat (map (\<lambda>student. map entry_id
                             (filter (student_matches student) (entries hass))) students)"
  let ?m = "\<exists>student \<in> set students. \<exists>entry \<in> set (entries hass). student_matches student entry"
  have r: "reauth_students students (model_dump env cred) (hass, False) =
             (hass\<lparr>entries := map ?G (entries hass), reloaded := reloaded hass @ ?ids\<rparr>, ?m)"
    by (simp add: reauth_students_eq)
  have a: "\<not> ?m \<longrightarrow> async_step_reauth_confirm env hass flow (Some ui) =
              Inr (Abort ''no_matching_entries'', hass, flow)"
  proof
    assume n: "\<not> ?m"
    have "\<And>entry. entry \<in> set (entries hass) \<Longrightarrow>
            find (\<lambda>student. student_matches student entry) (rev students) = None"
      using n by (auto simp: find_None_iff)
    then have g: "map ?G (entries hass) = entries hass"
      by (simp add: map_idI)
    have i: "?ids = []" using n by (auto simp: filter_empty_conv)
    show "async_step_reauth_confirm env hass flow (Some ui) =
              Inr (Abort ''no_matching_entries'', hass, flow)"
      using assms n r g i by (simp add: async_step_reauth_confirm_def)
  qed
  have b: "?m \<longrightarrow> async_step_reauth_confirm env hass flow (Some ui) =
             Inr (Abort ''reauth_successful'',
                  hass\<lparr>entries := map ?G (entries hass), reloaded := reloaded hass @ ?ids\<rparr>, flow)"
    using assms r by (simp add: async_step_reauth_confirm_def)
  show ?thesis using a b unfolding async_update_entry_def by blast
qed

theorem reauth_confirm_updates_matching_witness:
  "async_step_reauth_confirm
     \<lparr>create_new = (9::nat), register_by_token = (\<lambda>c t p s. Inr ()),
      get_accounts = (\<lambda>c. Inr [mk_account 11 ''Jan'' (Some ''Piotr'') ''Kowalski'']),
      model_dump = (\<lambda>c. c), model_validate = Inr\<rparr>
     \<lparr>entries = [\<lparr>entry_id = 1, unique_id = Some ''11'', title = ''Jan Kowalski'',
                   data = \<lparr>student_id = ''11'', credential = 5\<rparr>\<rparr>,
                 \<lparr>entry_id = 2, unique_id = Some ''12'', title = ''Ewa Maria Kowalska'',
                   data = \<lparr>student_id = ''12'', credential = 5\<rparr>\<rparr>],
      reloaded = []\<rparr>
     \<lparr>flow_credential = None, flow_students = None, flow_unique_id = None\<rparr>
     (Some \<lparr>CONF_TOKEN = ''3S1GFG0'', CONF_REGION = ''powiat'', CONF_PIN = ''123456''\<rparr>)
   = Inr (Abort ''reauth_successful'',
          \<lparr>entries = [\<lparr>entry_id = 1, unique_id = Some ''11'', title = ''Jan Piotr Kowalski'',
                   data = \<lparr>student_id = ''11'', credential = 9\<rparr>\<rparr>,
                 \<lparr>entry_id = 2, unique_id = Some ''12'', title = ''Ewa Maria Kowalska'',
                   data = \<lparr>student_id = ''12'', credential = 5\<rparr>\<rparr>],
            reloaded = [1]\<rparr>,
          \<lparr>flow_credential = None, flow_students = None, flow_unique_id = None\<rparr>)"
proof -
  have s: "str_int 11 = ''11''" by code_simp
  have p: "pupil_id (pupil (mk_account 11 ''Jan'' (Some ''Piotr'') ''Kowalski'')) = 11"
    by (simp add: mk_account_def)
  have f: "format_student_name (mk_account 11 ''Jan'' (Some ''Piotr'') ''Kowalski'')
             = ''Jan Piotr Kowalski''"
    by (simp add: format_student_name_def mk_account_def)
  have h: "register_and_get_students
      \<lparr>create_new = (9::nat), register_by_token = (\<lambda>c t p s. Inr ()),
        get_accounts = (\<lambda>c. Inr [mk_account 11 ''Jan'' (Some ''Piotr'') ''Kowalski'']),
        model_dump = (\<lambda>c. c), model_validate = Inr\<rparr>
      \<lparr>CONF_TOKEN = ''3S1GFG0'', CONF_REGION = ''powiat'', CONF_PIN = ''123456''\<rparr>
     = Inr (9, [mk_account 11 ''Jan'' (Some ''Piotr'') ''Kowalski''])"
    by (simp add: register_and_get_students_def register_def get_students_def)
  show ?thesis
    using reauth_confirm_updates_matching [OF h,
      where hass = "\<lparr>entries = [\<lparr>entry_id = 1, unique_id = Some ''11'', title = ''Jan Kowalski'',
                   data = \<lparr>student_id = ''11'', credential = 5\<rparr>\<rparr>,
                 \<lparr>entry_id = 2, unique_id = Some ''12'', title = ''Ewa Maria Kowalska'',
                   data = \<lparr>student_id = ''12'', credential = 5\<rparr>\<rparr>],
      reloaded = []\<rparr>"
        and flow = "\<lparr>flow_credential = None, flow_students = None, flow_unique_id = None\<rparr>"]
    by (simp add: student_matches_def s p f)
qed

end
